theory Spec2Isabelle
  imports Complex_Main
begin

section \<open>Data model of the profiling pipeline\<close>

text \<open>
  The embedding follows \<^verbatim>\<open>src/core/user_profiler.py\<close>,
  \<^verbatim>\<open>src/core/cross_session_learner.py\<close>, \<^verbatim>\<open>src/core/prompt_manager.py\<close>,
  \<^verbatim>\<open>src/utils/sentiment_analyzer.py\<close> and \<^verbatim>\<open>src/utils/language_complexity.py\<close>.

  Conventions of the model:
  \<^item> a Python \<^verbatim>\<open>float\<close> is an exact rational (\<^typ>\<open>rat\<close>): rounding is not modelled;
  \<^item> a Python \<^verbatim>\<open>str\<close> is a \<^typ>\<open>string\<close>, so a text holds code points below 256;
  \<^item> \<^verbatim>\<open>datetime.utcnow()\<close> is an argument \<open>now\<close>, a clock reading in milliseconds;
  \<^item> the three events are typed as the request models of \<^verbatim>\<open>main.py\<close> type them
    (\<^verbatim>\<open>UserPromptSimple\<close>, \<^verbatim>\<open>FeedbackRequest\<close>, \<^verbatim>\<open>SessionRequest\<close>), so the
    defaults of \<^verbatim>\<open>dict.get\<close> only matter where a field is optional there;
  \<^item> writing a profile to disk, printing and the audit trail
    \<^verbatim>\<open>profile_update_history\<close> are left out: nothing below reads them.
\<close>

type_synonym py_float = rat
type_synonym timestamp = int

text \<open>The message event \<^verbatim>\<open>prompt_data\<close>.\<close>

record prompt_data =
  pd_user_id :: string
  pd_input_text :: string
  pd_input_start_time :: int
  pd_input_end_time :: int
  pd_input_sent_time :: int

text \<open>The feedback event \<^verbatim>\<open>feedback_data\<close>.\<close>

record feedback_data =
  fd_user_id :: string
  fd_response_text :: string
  fd_response_duration :: int
  fd_feedback_type :: string
  fd_feedback_delay_duration :: int

text \<open>
  The session event \<^verbatim>\<open>session_data\<close>; \<open>sd_engagement_time\<close> is
  \<^verbatim>\<open>session_data.get("engagement", {}).get("engagement_time")\<close>, an extra field.
\<close>

record session_data =
  sd_session_id :: string
  sd_session_start :: int
  sd_session_end :: "int option"
  sd_session_end_type :: "string option"
  sd_session_duration :: int
  sd_engagement_time :: "int option"

text \<open>
  An entry of \<^verbatim>\<open>feedback_history\<close>: the dictionary literals of
  \<^verbatim>\<open>update_profile_from_feedback\<close> (no key \<^verbatim>\<open>data\<close>) and of
  \<^verbatim>\<open>_update_personalization_from_feedback\<close> (with the raw event under \<^verbatim>\<open>data\<close>).
\<close>

record feedback_entry =
  fe_type :: string
  fe_timestamp :: timestamp
  fe_response_text :: string
  fe_response_duration :: int
  fe_feedback_delay_duration :: int
  fe_data :: "feedback_data option"

text \<open>
  An entry of \<^verbatim>\<open>session_history\<close>: the dictionary literal of
  \<^verbatim>\<open>update_profile_from_session\<close>, one field per key.
\<close>

record session_entry =
  se_session_id :: string
  se_start_time :: int
  se_end_time :: "int option"
  se_duration :: int
  se_end_type :: "string option"
  se_data :: session_data

text \<open>
  The output of \<^verbatim>\<open>EnhancedLanguageAnalyzer.analyze_text\<close>, as far as the profiler reads
  it: four labels, each behind two \<^verbatim>\<open>dict.get\<close> calls with a default. The analyzer
  itself rests on external libraries and is an argument of the message update.
\<close>

record language_analysis =
  la_complexity_level :: "string option"
  la_vocabulary_level :: "string option"
  la_sentiment_label :: "string option"
  la_enthusiasm_level :: "string option"

subsection \<open>Results of the cross-session learner\<close>

text \<open>
  The dictionaries returned by the four \<^verbatim>\<open>_analyze_*\<close> methods, one field per key.
  Two keys of the timing dictionary are left out: \<^verbatim>\<open>time_preferences\<close> (it depends on
  the local time zone) and \<^verbatim>\<open>duration_consistency\<close> (a square root); no other value
  depends on them.
\<close>

record timing_patterns =
  avg_session_duration :: py_float
  tp_total_sessions :: nat
  session_frequency_per_day :: py_float

record engagement_patterns =
  recent_engagement :: py_float
  engagement_trend :: string
  engagement_level :: string
  session_completion_rate :: py_float

text \<open>
  \<^verbatim>\<open>_analyze_expertise_progression\<close> returns either the single key
  \<^verbatim>\<open>progression: insufficient_data\<close> or four keys.
\<close>

datatype expertise_progression =
  Insufficient_Data
  | Progression string py_float py_float py_float

record communication_patterns =
  preferred_complexity :: string
  preferred_detail :: string
  preferred_style :: string
  communication_consistency :: py_float
  cp_expertise_progression :: expertise_progression
  adaptability_score :: py_float

record feedback_patterns =
  total_feedback :: nat
  positive_ratio :: py_float
  negative_ratio :: py_float
  avg_feedback_delay :: py_float
  feedback_consistency :: py_float
  improvement_pattern :: string
  feedback_engagement :: string

text \<open>
  The non-empty result of \<^verbatim>\<open>analyze_user_patterns\<close>; the empty dictionary
  \<^verbatim>\<open>{}\<close> is \<open>None\<close>, for the whole result and for a pattern group.
\<close>

record analysis =
  an_timing :: "timing_patterns option"
  an_engagement :: "engagement_patterns option"
  an_communication :: communication_patterns
  an_feedback :: "feedback_patterns option"
  an_insights :: "string list"
  an_recommendations :: "string list"

text \<open>An entry of the learner's \<^verbatim>\<open>pattern_cache\<close>.\<close>

record cache_entry =
  ce_timing :: "timing_patterns option"
  ce_engagement :: "engagement_patterns option"
  ce_communication :: communication_patterns
  ce_feedback :: "feedback_patterns option"
  ce_insights :: "string list"
  ce_last_updated :: timestamp

subsection \<open>The profile and the profiler's state\<close>

text \<open>
  \<^verbatim>\<open>UserProfile\<close> of \<^verbatim>\<open>src/models/schemas.py\<close>, without the unused
  \<^verbatim>\<open>rl_state\<close>.
\<close>

record profile =
  user_id :: string
  created_at :: timestamp
  updated_at :: timestamp
  average_session_duration :: py_float
  average_response_time :: py_float
  average_typing_speed :: py_float
  average_sentiment_score :: py_float
  average_language_complexity :: py_float
  average_grammatical_accuracy :: py_float
  total_sessions :: int
  average_engagement_time :: py_float
  feedback_ratio :: py_float
  positive_feedback_ratio :: py_float
  preferred_language_complexity :: string
  preferred_response_style :: string
  preferred_detail_level :: string
  session_history :: "session_entry list"
  feedback_history :: "feedback_entry list"
  cross_session_insights :: "analysis option"

text \<open>
  \<^verbatim>\<open>UserProfiler.user_profiles\<close> together with
  \<^verbatim>\<open>CrossSessionLearner.pattern_cache\<close>.
\<close>

record profiler =
  user_profiles :: "string \<rightharpoonup> profile"
  pattern_cache :: "string \<rightharpoonup> cache_entry"

section \<open>Python helpers\<close>

text \<open>\<^verbatim>\<open>numpy.mean\<close> of a non-empty list of numbers.\<close>

definition np_mean :: "py_float list \<Rightarrow> py_float" where
  "np_mean xs = sum_list xs / of_nat (length xs)"

text \<open>\<^verbatim>\<open>needle in haystack\<close> for strings: the needle occurs as a substring.\<close>

fun startswith :: "'a list \<Rightarrow> 'a list \<Rightarrow> bool" where
  "startswith xs [] = True"
| "startswith [] (p # ps) = False"
| "startswith (x # xs) (p # ps) = (x = p \<and> startswith xs ps)"

fun py_in :: "'a list \<Rightarrow> 'a list \<Rightarrow> bool" where
  "py_in needle [] = (needle = [])"
| "py_in needle (x # xs) = (startswith (x # xs) needle \<or> py_in needle xs)"

text \<open>
  The values a key of a session entry can hold, and \<^verbatim>\<open>entry.get(key)\<close>: the entry
  has exactly the six keys that \<^verbatim>\<open>update_profile_from_session\<close> writes, any other
  key gives \<^verbatim>\<open>None\<close>.
\<close>

datatype pyval = PNone | PInt int | PStr string | PSession session_data

definition session_entry_items :: "session_entry \<Rightarrow> (string \<times> pyval) list" where
  "session_entry_items s =
     [(''session_id'', PStr (se_session_id s)),
      (''start_time'', PInt (se_start_time s)),
      (''end_time'', (case se_end_time s of None \<Rightarrow> PNone | Some t \<Rightarrow> PInt t)),
      (''duration'', PInt (se_duration s)),
      (''end_type'', (case se_end_type s of None \<Rightarrow> PNone | Some t \<Rightarrow> PStr t)),
      (''data'', PSession (se_data s))]"

definition session_entry_get :: "session_entry \<Rightarrow> string \<Rightarrow> pyval" where
  "session_entry_get s k =
     (case map_of (session_entry_items s) k of None \<Rightarrow> PNone | Some v \<Rightarrow> v)"

section \<open>The cross-session learner\<close>

text \<open>
  \<^verbatim>\<open>_analyze_timing_patterns\<close>. The days since creation are
  \<^verbatim>\<open>(datetime.utcnow() - profile.created_at).days\<close>, a floor.
\<close>

definition days_since :: "timestamp \<Rightarrow> timestamp \<Rightarrow> int" where
  "days_since now created = (now - created) div 86400000"

definition analyze_timing_patterns :: "profile \<Rightarrow> timestamp \<Rightarrow> timing_patterns option" where
  "analyze_timing_patterns p now =
     (let sessions = session_history p in
      if sessions = [] then None
      else
        let durations = map (\<lambda>s. of_int (se_duration s)) (filter (\<lambda>s. se_duration s \<noteq> 0) sessions);
            avg_duration = (if durations \<noteq> [] then np_mean durations else 0);
            session_frequency =
              of_nat (length sessions) / of_int (max 1 (days_since now (created_at p)))
        in Some \<lparr>avg_session_duration = avg_duration,
                 tp_total_sessions = length sessions,
                 session_frequency_per_day = session_frequency\<rparr>)"

text \<open>\<^verbatim>\<open>_classify_engagement_level\<close> and \<^verbatim>\<open>_calculate_completion_rate\<close>.\<close>

definition classify_engagement_level :: "py_float \<Rightarrow> string" where
  "classify_engagement_level avg_duration =
     (if avg_duration > 300000 then ''high''
      else if avg_duration > 120000 then ''medium''
      else ''low'')"

definition calculate_completion_rate :: "session_entry list \<Rightarrow> py_float" where
  "calculate_completion_rate sessions =
     (if sessions = [] then 0
      else
        let completed_sessions =
              length (filter (\<lambda>s. session_entry_get s ''session_end_type'' = PStr ''completed'')
                        sessions)
        in of_nat completed_sessions / of_nat (length sessions))"

text \<open>
  \<^verbatim>\<open>_analyze_engagement_patterns\<close>. \<^verbatim>\<open>list.sort(key=..., reverse=True)\<close> is
  stable: entries with equal start times keep their order.
\<close>

definition sort_by_start_time_desc :: "session_entry list \<Rightarrow> session_entry list" where
  "sort_by_start_time_desc xs = rev (sort_key se_start_time (rev xs))"

definition session_durations :: "session_entry list \<Rightarrow> py_float list" where
  "session_durations xs = map (\<lambda>s. of_int (se_duration s)) xs"

definition analyze_engagement_patterns :: "profile \<Rightarrow> engagement_patterns option" where
  "analyze_engagement_patterns p =
     (let sessions = session_history p in
      if sessions = [] then None
      else
        let recent_sessions = filter (\<lambda>s. se_start_time s \<noteq> 0) sessions;
            recent_avg_duration =
              (if recent_sessions \<noteq> []
               then np_mean (session_durations (take 5 (sort_by_start_time_desc recent_sessions)))
               else 0);
            trend =
              (if length sessions > 1
               then
                 let early_sessions = take (length sessions div 2) sessions;
                     late_sessions = drop (length sessions div 2) sessions;
                     early_avg_duration = np_mean (session_durations early_sessions);
                     late_avg_duration = np_mean (session_durations late_sessions)
                 in if late_avg_duration > early_avg_duration then ''increasing''
                    else ''decreasing''
               else ''stable'')
        in Some \<lparr>recent_engagement = recent_avg_duration,
                 engagement_trend = trend,
                 engagement_level = classify_engagement_level recent_avg_duration,
                 session_completion_rate = calculate_completion_rate sessions\<rparr>)"

text \<open>\<^verbatim>\<open>_analyze_expertise_progression\<close> and \<^verbatim>\<open>_calculate_adaptability_score\<close>.\<close>

definition analyze_expertise_progression :: "profile \<Rightarrow> expertise_progression" where
  "analyze_expertise_progression p =
     (let sessions = session_history p in
      if length sessions < 2 then Insufficient_Data
      else
        let early_sessions = take (length sessions div 2) sessions;
            late_sessions = drop (length sessions div 2) sessions;
            early_avg_duration = np_mean (session_durations early_sessions);
            late_avg_duration = np_mean (session_durations late_sessions);
            progression =
              (if late_avg_duration > early_avg_duration * (12 / 10) then ''improving''
               else if late_avg_duration < early_avg_duration * (8 / 10) then ''declining''
               else ''stable'')
        in Progression progression early_avg_duration late_avg_duration
             (late_avg_duration / max early_avg_duration 1))"

definition count_positive :: "feedback_entry list \<Rightarrow> nat" where
  "count_positive fs = length (filter (\<lambda>f. fe_type f = ''positive'') fs)"

definition calculate_adaptability_score :: "profile \<Rightarrow> py_float" where
  "calculate_adaptability_score p =
     (let base = 5 / 10;
          with_feedback =
            (if feedback_history p \<noteq> []
             then base + (of_nat (count_positive (feedback_history p))
                            / of_nat (length (feedback_history p))) * (3 / 10)
             else base);
          with_sessions =
            (if length (session_history p) > 1
             then with_feedback + min (2 / 10) (of_nat (length (session_history p)) * (2 / 100))
             else with_feedback)
      in min 1 with_sessions)"

text \<open>\<^verbatim>\<open>_analyze_communication_patterns\<close>, with its consistency score on its own.\<close>

definition consistency_score :: "profile \<Rightarrow> py_float" where
  "consistency_score p =
     (let score0 = 0;
          score1 = (if preferred_language_complexity p = ''intermediate''
                    then score0 + 3 / 10 else score0);
          score2 = (if preferred_detail_level p = ''balanced''
                    then score1 + 3 / 10 else score1);
          score3 = (if preferred_response_style p = ''conversational''
                    then score2 + 4 / 10 else score2)
      in score3)"

definition analyze_communication_patterns :: "profile \<Rightarrow> communication_patterns" where
  "analyze_communication_patterns p =
     \<lparr>preferred_complexity = preferred_language_complexity p,
      preferred_detail = preferred_detail_level p,
      preferred_style = preferred_response_style p,
      communication_consistency = consistency_score p,
      cp_expertise_progression = analyze_expertise_progression p,
      adaptability_score = calculate_adaptability_score p\<rparr>"

text \<open>
  \<^verbatim>\<open>_analyze_feedback_improvement\<close>: the three earliest against the three latest
  entries.
\<close>

definition analyze_feedback_improvement :: "feedback_entry list \<Rightarrow> string" where
  "analyze_feedback_improvement fs =
     (if length fs < 3 then ''insufficient_data''
      else
        let recent_positive = count_positive (drop (length fs - 3) fs);
            early_positive = count_positive (take 3 fs)
        in if recent_positive > early_positive then ''improving''
           else if recent_positive < early_positive then ''declining''
           else ''stable'')"

text \<open>
  \<^verbatim>\<open>_classify_feedback_engagement\<close>. The mean of an empty list of delays is
  \<^verbatim>\<open>nan\<close>, and \<^verbatim>\<open>nan < 10000\<close> is false.
\<close>

definition feedback_delays :: "feedback_entry list \<Rightarrow> py_float list" where
  "feedback_delays fs =
     map (\<lambda>f. of_int (fe_feedback_delay_duration f))
       (filter (\<lambda>f. fe_feedback_delay_duration f \<noteq> 0) fs)"

definition classify_feedback_engagement :: "feedback_entry list \<Rightarrow> string" where
  "classify_feedback_engagement fs =
     (if fs = [] then ''none''
      else
        let total = length fs;
            quick = (feedback_delays fs \<noteq> [] \<and> np_mean (feedback_delays fs) < 10000)
        in if total > 5 \<and> quick then ''high''
           else if total > 2 then ''medium''
           else ''low'')"

text \<open>\<^verbatim>\<open>_analyze_feedback_patterns\<close>.\<close>

definition analyze_feedback_patterns :: "profile \<Rightarrow> feedback_patterns option" where
  "analyze_feedback_patterns p =
     (let fs = feedback_history p in
      if fs = [] then None
      else
        let delays = feedback_delays fs;
            avg_delay = (if delays \<noteq> [] then np_mean delays else 0);
            pos = of_nat (count_positive fs) / of_nat (length fs);
            neg = of_nat (length (filter (\<lambda>f. fe_type f = ''negative'') fs))
                    / of_nat (length fs)
        in Some \<lparr>total_feedback = length fs,
                 positive_ratio = pos,
                 negative_ratio = neg,
                 avg_feedback_delay = avg_delay,
                 feedback_consistency = 1 - \<bar>pos - neg\<bar>,
                 improvement_pattern = analyze_feedback_improvement fs,
                 feedback_engagement = classify_feedback_engagement fs\<rparr>)"

text \<open>
  \<^verbatim>\<open>_generate_insights\<close>: every \<^verbatim>\<open>dict.get(key, 0)\<close> on a possibly empty
  dictionary is a case on the option.
\<close>

definition generate_insights ::
  "timing_patterns option \<Rightarrow> engagement_patterns option \<Rightarrow> communication_patterns \<Rightarrow>
   feedback_patterns option \<Rightarrow> string list" where
  "generate_insights timing engagement communication feedback =
     (let frequency = (case timing of None \<Rightarrow> 0 | Some t \<Rightarrow> session_frequency_per_day t);
          trend = map_option engagement_trend engagement;
          pos = (case feedback of None \<Rightarrow> 0 | Some f \<Rightarrow> positive_ratio f);
          neg = (case feedback of None \<Rightarrow> 0 | Some f \<Rightarrow> negative_ratio f)
      in
        (if frequency > 2 then [''User is highly active with multiple daily sessions'']
         else if frequency < 1 / 10 then [''User has infrequent usage patterns'']
         else [])
        @ (if trend = Some ''increasing'' then [''User engagement is improving over time'']
           else if trend = Some ''decreasing'' then [''User engagement has declined recently'']
           else [])
        @ (if communication_consistency communication > 8 / 10
           then [''User has consistent communication preferences'']
           else [''User shows varied communication preferences''])
        @ (if pos > 7 / 10 then [''User is generally satisfied with responses'']
           else if neg > 5 / 10 then [''User frequently provides negative feedback'']
           else []))"

text \<open>\<^verbatim>\<open>_generate_recommendations\<close>: at most one recommendation per insight.\<close>

definition recommendation_for :: "string \<Rightarrow> string list" where
  "recommendation_for insight =
     (if py_in ''highly active'' insight
      then [''Consider providing more detailed responses to maintain engagement'']
      else if py_in ''infrequent usage'' insight
      then [''Focus on concise, impactful responses to encourage return visits'']
      else if py_in ''engagement improving'' insight
      then [''Continue current approach as it's working well'']
      else if py_in ''engagement declined'' insight
      then [''Review recent interactions and adjust response strategy'']
      else if py_in ''consistent preferences'' insight
      then [''Maintain current personalization approach'']
      else if py_in ''varied preferences'' insight
      then [''Adapt responses dynamically based on context'']
      else if py_in ''generally satisfied'' insight
      then [''Maintain current response quality and style'']
      else if py_in ''negative feedback'' insight
      then [''Review and improve response accuracy and relevance'']
      else [])"

definition generate_recommendations :: "string list \<Rightarrow> string list" where
  "generate_recommendations insights = concat (map recommendation_for insights)"

text \<open>
  \<^verbatim>\<open>analyze_user_patterns\<close>: the result and the updated \<^verbatim>\<open>pattern_cache\<close>. Both
  early returns leave the cache as it is.
\<close>

definition analyze_user_patterns ::
  "(string \<rightharpoonup> cache_entry) \<Rightarrow> string \<Rightarrow> (string \<rightharpoonup> profile) \<Rightarrow> timestamp \<Rightarrow>
   analysis option \<times> (string \<rightharpoonup> cache_entry)" where
  "analyze_user_patterns cache uid profiles now =
     (case profiles uid of
        None \<Rightarrow> (None, cache)
      | Some p \<Rightarrow>
          if session_history p = [] then (None, cache)
          else
            let timing = analyze_timing_patterns p now;
                engagement = analyze_engagement_patterns p;
                communication = analyze_communication_patterns p;
                feedback = analyze_feedback_patterns p;
                insights = generate_insights timing engagement communication feedback
            in (Some \<lparr>an_timing = timing,
                      an_engagement = engagement,
                      an_communication = communication,
                      an_feedback = feedback,
                      an_insights = insights,
                      an_recommendations = generate_recommendations insights\<rparr>,
                cache(uid \<mapsto> \<lparr>ce_timing = timing,
                               ce_engagement = engagement,
                               ce_communication = communication,
                               ce_feedback = feedback,
                               ce_insights = insights,
                               ce_last_updated = now\<rparr>)))"

section \<open>The profile updater\<close>

text \<open>\<^verbatim>\<open>create_user_profile\<close>: the defaults, stored under the user's id.\<close>

definition default_profile :: "string \<Rightarrow> timestamp \<Rightarrow> profile" where
  "default_profile uid now =
     \<lparr>user_id = uid,
      created_at = now,
      updated_at = now,
      average_session_duration = 0,
      average_response_time = 0,
      average_typing_speed = 0,
      average_sentiment_score = 0,
      average_language_complexity = 0,
      average_grammatical_accuracy = 1,
      total_sessions = 0,
      average_engagement_time = 0,
      feedback_ratio = 0,
      positive_feedback_ratio = 0,
      preferred_language_complexity = ''medium'',
      preferred_response_style = ''conversational'',
      preferred_detail_level = ''medium'',
      session_history = [],
      feedback_history = [],
      cross_session_insights = None\<rparr>"

definition create_user_profile :: "profiler \<Rightarrow> string \<Rightarrow> timestamp \<Rightarrow> profile \<times> profiler" where
  "create_user_profile st uid now =
     (let p = default_profile uid now
      in (p, st\<lparr>user_profiles := (user_profiles st)(uid \<mapsto> p)\<rparr>))"

definition get_user_profile :: "profiler \<Rightarrow> string \<Rightarrow> profile option" where
  "get_user_profile st uid = user_profiles st uid"

text \<open>
  \<^verbatim>\<open>_update_cross_session_learning\<close>: a non-empty analysis replaces the three keys
  of \<^verbatim>\<open>cross_session_insights\<close>; an empty one changes nothing.
\<close>

definition update_cross_session_learning :: "profiler \<Rightarrow> string \<Rightarrow> timestamp \<Rightarrow> profiler" where
  "update_cross_session_learning st uid now =
     (case analyze_user_patterns (pattern_cache st) uid (user_profiles st) now of
        (None, cache) \<Rightarrow> st\<lparr>pattern_cache := cache\<rparr>
      | (Some patterns, cache) \<Rightarrow>
          (case user_profiles st uid of
             None \<Rightarrow> st\<lparr>pattern_cache := cache\<rparr>
           | Some p \<Rightarrow>
               st\<lparr>user_profiles :=
                    (user_profiles st)(uid \<mapsto> p\<lparr>cross_session_insights := Some patterns\<rparr>),
                  pattern_cache := cache\<rparr>))"

text \<open>\<^verbatim>\<open>_update_profile_from_language_analysis\<close>.\<close>

definition get_default :: "'a option \<Rightarrow> 'a \<Rightarrow> 'a" where
  "get_default v d = (case v of None \<Rightarrow> d | Some x \<Rightarrow> x)"

definition update_profile_from_language_analysis :: "profile \<Rightarrow> language_analysis \<Rightarrow> profile" where
  "update_profile_from_language_analysis p a =
     (let complexity_level = get_default (la_complexity_level a) ''medium'';
          p1 = (if complexity_level \<in> set [''very_easy'', ''easy'']
                then p\<lparr>preferred_language_complexity := ''simple''\<rparr>
                else if complexity_level \<in> set [''difficult'', ''very_difficult'']
                then p\<lparr>preferred_language_complexity := ''complex''\<rparr>
                else p\<lparr>preferred_language_complexity := ''medium''\<rparr>);
          vocab_level = get_default (la_vocabulary_level a) ''medium'';
          p2 = (if vocab_level = ''advanced'' then p1\<lparr>preferred_detail_level := ''detailed''\<rparr>
                else if vocab_level = ''limited'' then p1\<lparr>preferred_detail_level := ''concise''\<rparr>
                else p1);
          sentiment_label = get_default (la_sentiment_label a) ''neutral'';
          enthusiasm_level = get_default (la_enthusiasm_level a) ''low''
      in if sentiment_label = ''positive'' \<and> enthusiasm_level = ''high''
         then p2\<lparr>preferred_response_style := ''enthusiastic''\<rparr>
         else if sentiment_label = ''negative''
         then p2\<lparr>preferred_response_style := ''professional''\<rparr>
         else p2\<lparr>preferred_response_style := ''conversational''\<rparr>)"

text \<open>
  \<^verbatim>\<open>_update_profile_metrics\<close>: typing speed, then the detail level from the length
  of the message, then the response time.
\<close>

definition update_profile_metrics :: "profile \<Rightarrow> prompt_data \<Rightarrow> profile" where
  "update_profile_metrics p d =
     (let typing_duration = pd_input_end_time d - pd_input_start_time d;
          message_length = length (pd_input_text d);
          p1 = (if typing_duration > 0
                then
                  let current_avg = average_typing_speed p
                  in if message_length > 0
                     then
                       let typing_speed = of_nat message_length / (of_int typing_duration / 1000)
                       in p\<lparr>average_typing_speed := (current_avg + typing_speed) / 2\<rparr>
                     else p
                else p);
          p2 = (if message_length > 100 then p1\<lparr>preferred_detail_level := ''detailed''\<rparr>
                else if message_length < 20 then p1\<lparr>preferred_detail_level := ''concise''\<rparr>
                else p1);
          input_sent_time = pd_input_sent_time d
      in if input_sent_time > 0
         then
           if average_response_time p2 > 0
           then p2\<lparr>average_response_time :=
                      (average_response_time p2 + of_int input_sent_time) / 2\<rparr>
           else p2\<lparr>average_response_time := of_int input_sent_time\<rparr>
         else p2)"

text \<open>
  \<^verbatim>\<open>update_profile_from_prompt\<close>, the message event. The profile-level part is
  \<open>apply_prompt\<close>; the analyzer is the argument \<open>analyze_text\<close>.
\<close>

definition apply_prompt ::
  "(string \<Rightarrow> language_analysis) \<Rightarrow> profile \<Rightarrow> prompt_data \<Rightarrow> timestamp \<Rightarrow> profile" where
  "apply_prompt analyze_text p d now =
     (let input_text = pd_input_text d;
          p1 = (if input_text \<noteq> []
                then update_profile_from_language_analysis p (analyze_text input_text)
                else p);
          p2 = update_profile_metrics p1 d
      in p2\<lparr>updated_at := now\<rparr>)"

definition update_profile_from_prompt ::
  "(string \<Rightarrow> language_analysis) \<Rightarrow> profiler \<Rightarrow> prompt_data \<Rightarrow> timestamp \<Rightarrow> profiler" where
  "update_profile_from_prompt analyze_text st d now =
     (let uid = pd_user_id d;
          (p, st1) = (case get_user_profile st uid of
                        None \<Rightarrow> create_user_profile st uid now
                      | Some p \<Rightarrow> (p, st));
          p' = apply_prompt analyze_text p d now;
          st2 = st1\<lparr>user_profiles := (user_profiles st1)(uid \<mapsto> p')\<rparr>
      in update_cross_session_learning st2 uid now)"

text \<open>
  \<^verbatim>\<open>_update_personalization_from_feedback\<close>: one entry with the raw event under
  \<^verbatim>\<open>data\<close>, the detail level and the positive ratio by the polarity, the feedback
  ratio in every case.
\<close>

definition update_personalization_from_feedback ::
  "profile \<Rightarrow> feedback_data \<Rightarrow> timestamp \<Rightarrow> profile" where
  "update_personalization_from_feedback p d now =
     (let feedback_type = fd_feedback_type d;
          feedback_entry =
            \<lparr>fe_type = feedback_type,
             fe_timestamp = now,
             fe_response_text = fd_response_text d,
             fe_response_duration = fd_response_duration d,
             fe_feedback_delay_duration = fd_feedback_delay_duration d,
             fe_data = Some d\<rparr>;
          p1 = p\<lparr>feedback_history := feedback_history p @ [feedback_entry]\<rparr>;
          p2 =
            (if feedback_type = ''positive''
             then
               let current_detail = preferred_detail_level p1;
                   q = (if current_detail = ''concise''
                        then p1\<lparr>preferred_detail_level := ''medium''\<rparr>
                        else if current_detail = ''medium''
                        then p1\<lparr>preferred_detail_level := ''detailed''\<rparr>
                        else p1)
               in q\<lparr>positive_feedback_ratio := min 1 (positive_feedback_ratio q + 1 / 10)\<rparr>
             else if feedback_type = ''negative''
             then
               let current_detail = preferred_detail_level p1;
                   q = (if current_detail = ''detailed''
                        then p1\<lparr>preferred_detail_level := ''medium''\<rparr>
                        else if current_detail = ''medium''
                        then p1\<lparr>preferred_detail_level := ''concise''\<rparr>
                        else p1)
               in q\<lparr>positive_feedback_ratio := max 0 (positive_feedback_ratio q - 1 / 10)\<rparr>
             else p1);
          p3 = p2\<lparr>feedback_ratio := min 1 (feedback_ratio p2 + 1 / 10)\<rparr>
      in p3\<lparr>updated_at := now\<rparr>)"

text \<open>
  \<^verbatim>\<open>update_profile_from_feedback\<close>, the feedback event. Its own branch on the
  feedback type appends an entry without \<^verbatim>\<open>data\<close> before the helper above runs.
  The profile-level part is \<open>apply_feedback\<close>.
\<close>

definition apply_feedback :: "profile \<Rightarrow> feedback_data \<Rightarrow> timestamp \<Rightarrow> profile" where
  "apply_feedback p d now =
     (let feedback_type = fd_feedback_type d;
          p1 =
            (if feedback_type = ''positive''
             then p\<lparr>feedback_history := feedback_history p @
                      [\<lparr>fe_type = ''positive'',
                        fe_timestamp = now,
                        fe_response_text = fd_response_text d,
                        fe_response_duration = fd_response_duration d,
                        fe_feedback_delay_duration = fd_feedback_delay_duration d,
                        fe_data = None\<rparr>]\<rparr>
             else if feedback_type = ''negative''
             then p\<lparr>feedback_history := feedback_history p @
                      [\<lparr>fe_type = ''negative'',
                        fe_timestamp = now,
                        fe_response_text = fd_response_text d,
                        fe_response_duration = fd_response_duration d,
                        fe_feedback_delay_duration = fd_feedback_delay_duration d,
                        fe_data = None\<rparr>]\<rparr>
             else p);
          p2 = update_personalization_from_feedback p1 d now
      in p2\<lparr>updated_at := now\<rparr>)"

definition update_profile_from_feedback ::
  "profiler \<Rightarrow> feedback_data \<Rightarrow> timestamp \<Rightarrow> profiler" where
  "update_profile_from_feedback st d now =
     (let uid = fd_user_id d;
          (p, st1) = (case get_user_profile st uid of
                        None \<Rightarrow> create_user_profile st uid now
                      | Some p \<Rightarrow> (p, st));
          p' = apply_feedback p d now;
          st2 = st1\<lparr>user_profiles := (user_profiles st1)(uid \<mapsto> p')\<rparr>
      in update_cross_session_learning st2 uid now)"

text \<open>
  \<^verbatim>\<open>update_profile_from_session\<close>, the session-end event: the returned profile (or
  \<^verbatim>\<open>None\<close>) and the new state. The profile-level part is \<open>apply_session\<close>.
\<close>

definition apply_session :: "profile \<Rightarrow> session_data \<Rightarrow> timestamp \<Rightarrow> profile" where
  "apply_session p d now =
     (let session_entry =
            \<lparr>se_session_id = sd_session_id d,
             se_start_time = sd_session_start d,
             se_end_time = sd_session_end d,
             se_duration = sd_session_duration d,
             se_end_type = sd_session_end_type d,
             se_data = d\<rparr>;
          p1 = p\<lparr>session_history := session_history p @ [session_entry]\<rparr>;
          p2 = p1\<lparr>total_sessions := total_sessions p1 + 1\<rparr>;
          p3 =
            (if sd_session_duration d \<noteq> 0
             then
               let current_avg = average_session_duration p2;
                   new_duration = of_int (sd_session_duration d)
               in if current_avg > 0
                  then p2\<lparr>average_session_duration := (current_avg + new_duration) / 2\<rparr>
                  else p2\<lparr>average_session_duration := new_duration\<rparr>
             else p2);
          p4 =
            (case sd_engagement_time d of
               None \<Rightarrow> p3
             | Some e \<Rightarrow>
                 if e \<noteq> 0
                 then
                   let current_avg = average_engagement_time p3
                   in if current_avg > 0
                      then p3\<lparr>average_engagement_time := (current_avg + of_int e) / 2\<rparr>
                      else p3\<lparr>average_engagement_time := of_int e\<rparr>
                 else p3)
      in p4\<lparr>updated_at := now\<rparr>)"

definition update_profile_from_session ::
  "profiler \<Rightarrow> string \<Rightarrow> session_data \<Rightarrow> timestamp \<Rightarrow> profile option \<times> profiler" where
  "update_profile_from_session st uid d now =
     (case get_user_profile st uid of
        None \<Rightarrow> (None, st)
      | Some p \<Rightarrow>
          let p' = apply_session p d now;
              st1 = st\<lparr>user_profiles := (user_profiles st)(uid \<mapsto> p')\<rparr>;
              st2 = update_cross_session_learning st1 uid now
          in (user_profiles st2 uid, st2))"

section \<open>Text helpers\<close>

text \<open>
  Characters by code point. \<^verbatim>\<open>str.split()\<close> and \<^verbatim>\<open>str.strip()\<close> cut at the
  characters for which \<^verbatim>\<open>str.isspace\<close> holds; \<^verbatim>\<open>\w\<close> of the \<^verbatim>\<open>re\<close> module is
  an alphanumeric character or the underscore; \<^verbatim>\<open>str.lower\<close> moves an upper-case
  letter 32 code points up. All three are written out for the code points below 256.
\<close>

definition code_point :: "char \<Rightarrow> nat" where
  "code_point c = of_char c"

definition is_space :: "char \<Rightarrow> bool" where
  "is_space c =
     (let n = code_point c
      in (9 \<le> n \<and> n \<le> 13) \<or> (28 \<le> n \<and> n \<le> 32) \<or> n = 133 \<or> n = 160)"

definition is_word_char :: "char \<Rightarrow> bool" where
  "is_word_char c =
     (let n = code_point c
      in (48 \<le> n \<and> n \<le> 57) \<or> (65 \<le> n \<and> n \<le> 90) \<or> n = 95 \<or> (97 \<le> n \<and> n \<le> 122)
         \<or> n = 170 \<or> n = 178 \<or> n = 179 \<or> n = 181 \<or> n = 185 \<or> n = 186
         \<or> (188 \<le> n \<and> n \<le> 190) \<or> (192 \<le> n \<and> n \<le> 214) \<or> (216 \<le> n \<and> n \<le> 246)
         \<or> 248 \<le> n)"

definition lower_char :: "char \<Rightarrow> char" where
  "lower_char c =
     (let n = code_point c
      in if (65 \<le> n \<and> n \<le> 90) \<or> (192 \<le> n \<and> n \<le> 214) \<or> (216 \<le> n \<and> n \<le> 222)
         then char_of (n + 32) else c)"

definition py_lower :: "string \<Rightarrow> string" where
  "py_lower text = map lower_char text"

text \<open>\<^verbatim>\<open>str.split()\<close>: the maximal runs of characters that are not white space.\<close>

fun split_ws :: "string \<Rightarrow> string \<Rightarrow> string list" where
  "split_ws cur [] = (if cur = [] then [] else [cur])"
| "split_ws cur (c # cs) =
     (if is_space c
      then (if cur = [] then split_ws [] cs else cur # split_ws [] cs)
      else split_ws (cur @ [c]) cs)"

definition py_split :: "string \<Rightarrow> string list" where
  "py_split text = split_ws [] text"





text \<open>\<^verbatim>\<open>int(x)\<close> of a float: truncation towards zero.\<close>

definition py_int :: "py_float \<Rightarrow> int" where
  "py_int x = (if x \<ge> 0 then \<lfloor>x\<rfloor> else \<lceil>x\<rceil>)"

section \<open>The sentiment scorer\<close>

text \<open>
  The two tables of \<^verbatim>\<open>SentimentAnalyzer.__init__\<close> in the order of the dictionary
  literals, a repeated key keeping its first place and its last value. The keys of the
  emoji table are lists of code points, as several of them are above 255.
\<close>

definition sentiment_tokens :: "(string \<times> int) list" where
  "sentiment_tokens =
     [(''excellent'', 5), (''amazing'', 5), (''outstanding'', 5), (''fantastic'', 5),
      (''brilliant'', 5), (''wonderful'', 4), (''great'', 4), (''awesome'', 4),
      (''perfect'', 4), (''superb'', 4), (''good'', 3), (''nice'', 3), (''fine'', 3),
      (''okay'', 2), (''alright'', 2), (''love'', 5), (''adore'', 5), (''enjoy'', 4),
      (''like'', 3), (''appreciate'', 4), (''helpful'', 4), (''useful'', 4),
      (''beneficial'', 4), (''valuable'', 4), (''excited'', 4), (''happy'', 4),
      (''pleased'', 4), (''satisfied'', 3), (''impressed'', 4), (''surprised'', 3),
      (''interested'', 3), (''terrible'', - 5), (''awful'', - 5), (''horrible'', - 5),
      (''dreadful'', - 5), (''atrocious'', - 5), (''bad'', - 3), (''poor'', - 3),
      (''worse'', - 4), (''worst'', - 5), (''hate'', - 5), (''despise'', - 5),
      (''loathe'', - 5), (''dislike'', - 3), (''disappointed'', - 3), (''frustrated'', - 3),
      (''angry'', - 4), (''annoyed'', - 3), (''irritated'', - 3), (''confused'', - 2),
      (''lost'', - 2), (''unsure'', - 2), (''uncertain'', - 2), (''useless'', - 4),
      (''pointless'', - 4), (''worthless'', - 4), (''meaningless'', - 4), (''boring'', - 3),
      (''tedious'', - 3), (''monotonous'', - 3), (''repetitive'', - 2), (''difficult'', - 2),
      (''hard'', - 2), (''challenging'', - 1), (''complex'', - 1), (''maybe'', 0),
      (''perhaps'', 0), (''possibly'', 0), (''might'', 0), (''could'', 0), (''think'', 0),
      (''believe'', 0), (''suppose'', 0), (''guess'', 0), (''question'', 0), (''ask'', 0),
      (''wonder'', 0), (''curious'', 0), (''explain'', 0), (''describe'', 0), (''tell'', 0),
      (''show'', 0), (''understand'', 0), (''learn'', 0), (''know'', 0), (''see'', 0)]"
definition emoji_sentiment :: "(nat list \<times> int) list" where
  "emoji_sentiment =
     [([240, 376, 732, 8364], 4), ([240, 376, 732, 402], 4), ([240, 376, 732, 8222], 4),
      ([240, 376, 732], 0), ([240, 376, 732, 8224], 4), ([240, 376, 732, 8230], 3),
      ([240, 376, 732, 8218], 4), ([240, 376, 164, 163], 4), ([240, 376, 732, 352], 4),
      ([240, 376, 732, 8225], 4), ([240, 376, 8482, 8218], 3), ([240, 376, 8482, 402], 2),
      ([240, 376, 732, 8240], 3), ([240, 376, 732, 338], 3), ([240, 376, 165, 176], 5),
      ([240, 376, 732, 732], 4), ([240, 376, 732, 8212], 3), ([240, 376, 732, 8482], 3),
      ([240, 376, 732, 353], 4), ([240, 376, 732, 8249], 3), ([240, 376, 732, 8250], 2),
      ([240, 376, 732, 339], 2), ([240, 376, 164, 170], 2), ([240, 376, 164, 168], 0),
      ([240, 376, 167], 0), ([240, 376, 164, 8220], 1), ([240, 376, 732, 381], 3),
      ([240, 376, 164, 169], 4), ([240, 376, 165, 179], 4), ([240, 376, 732, 8217], - 2),
      ([240, 376, 732, 382], - 3), ([240, 376, 732, 8221], - 3), ([240, 376, 732, 376], - 2),
      ([240, 376, 732, 8226], - 2), ([240, 376, 8482], - 2),
      ([226, 732, 185, 239, 184], - 3), ([240, 376, 732, 163], - 3),
      ([240, 376, 732, 8211], - 3), ([240, 376, 732, 171], - 3), ([240, 376, 732, 169], - 3),
      ([240, 376, 165, 186], - 1), ([240, 376, 732, 162], - 3), ([240, 376, 732, 173], - 4),
      ([240, 376, 732, 164], - 2), ([240, 376, 732, 160], - 3), ([240, 376, 732, 161], - 4),
      ([240, 376, 164, 172], - 5), ([240, 376, 164, 175], - 2), ([240, 376, 732, 179], - 1),
      ([240, 376, 165, 181], - 2), ([240, 376, 165, 182], - 2), ([240, 376, 732, 177], - 3),
      ([240, 376, 732, 168], - 3), ([240, 376, 732, 176], - 3), ([240, 376, 732, 165], - 2),
      ([240, 376, 732, 8220], - 2), ([240, 376, 164, 8212], 3), ([240, 376, 164, 8221], 0),
      ([240, 376, 164, 173], 1), ([240, 376, 164, 171], 0), ([240, 376, 164, 165], - 3),
      ([240, 376, 732, 182], 0), ([240, 376, 732, 8216], 0), ([240, 376, 732, 175], 0),
      ([240, 376, 732, 166], - 1), ([240, 376, 732, 167], - 2), ([240, 376, 732, 174], 0),
      ([240, 376, 732, 178], 0), ([240, 376, 732, 180], - 1), ([240, 376, 164, 164], - 1),
      ([240, 376, 732, 170], - 1), ([240, 376, 732, 181], - 2), ([240, 376, 164], 0),
      ([240, 376, 165, 180], - 1), ([240, 376, 164, 162], - 4), ([240, 376, 164, 174], - 5),
      ([240, 376, 164, 167], - 2), ([240, 376, 732, 183], - 1), ([240, 376, 164, 8217], - 2),
      ([240, 376, 164, 8226], - 2), ([240, 376, 164, 8216], - 2), ([240, 376, 164, 160], 2),
      ([240, 376, 732, 710], - 1), ([240, 376, 8216, 191], - 3),
      ([240, 376, 8216, 185], - 3), ([240, 376, 8216, 186], - 3),
      ([240, 376, 8217, 8364], - 2), ([240, 376, 8216, 187], 1), ([240, 376, 8216, 189], 0),
      ([240, 376, 164, 8211], 0), ([240, 376, 732, 186], 4), ([240, 376, 732, 184], 4),
      ([240, 376, 732, 185], 4), ([240, 376, 732, 187], 5), ([240, 376, 732, 188], 1),
      ([240, 376, 732, 189], 3), ([240, 376, 8482, 8364], - 2), ([240, 376, 732, 191], - 3),
      ([240, 376, 732, 190], - 3), ([240, 376, 8482, 710], 1), ([240, 376, 8482, 8240], 0),
      ([240, 376, 8482, 352], 0), ([240, 376, 8217, 338], 3), ([240, 376, 8217, 732], 4),
      ([240, 376, 8217], 4), ([240, 376, 8217, 8211], 4), ([240, 376, 8217, 8212], 3),
      ([240, 376, 8217, 8482], 2), ([240, 376, 8217, 353], 2), ([240, 376, 167, 161], 2),
      ([240, 376, 8217, 8250], 2), ([240, 376, 8217, 339], 2), ([240, 376, 8211, 164], - 1),
      ([240, 376, 8217, 8221], - 4), ([226, 163, 239, 184], 3), ([240, 376, 8217, 8226], 4),
      ([240, 376, 8217, 382], 4), ([240, 376, 8217, 8220], 3), ([240, 376, 8217, 376], 3),
      ([226, 732, 174, 239, 184], 2), ([226, 339, 239, 184], 0),
      ([226, 732, 170, 239, 184], 0), ([240, 376, 8226, 8240, 239, 184], 0),
      ([226, 732, 184, 239, 184], 0), ([226, 339, 161, 239, 184], 0),
      ([240, 376, 8221, 175], 0), ([240, 376, 8226, 381], 0), ([226, 732, 175, 239, 184], 0),
      ([226, 732, 166, 239, 184], 0), ([240, 376, 8250], 0), ([226, 8250, 381], 0),
      ([226, 8482, 710], 0), ([226, 8482, 8240], 0), ([226, 8482, 352], 0),
      ([226, 8482, 8249], 0), ([226, 8482, 338], 0), ([226, 8482], 0), ([226, 8482, 381], 0),
      ([226, 8482, 8216], 0), ([226, 8482, 8217], 0), ([226, 8482, 8220], 0),
      ([240, 376, 8224, 8221], 0), ([226, 353, 8250, 239, 184], 0),
      ([240, 376, 8240, 8216], 0), ([226, 732, 162, 239, 184], - 3),
      ([226, 732, 163, 239, 184], - 2), ([240, 376, 8220, 180], - 1),
      ([240, 376, 8220, 179], 0), ([240, 376, 710, 182], 0), ([240, 376, 710, 353], 0),
      ([240, 376, 710, 184], 0), ([240, 376, 710, 186], 0),
      ([240, 376, 710, 183, 239, 184], 0), ([226, 339, 180, 239, 184], 0),
      ([240, 376, 8224, 353], 0), ([240, 376, 8217, 174], 0), ([240, 376, 8240], 0),
      ([227, 352, 8482, 239, 184], 0), ([227, 352, 8212, 239, 184], 0),
      ([240, 376, 710, 180], 0), ([240, 376, 710, 181], 0), ([240, 376, 710, 185], 0),
      ([240, 376, 710, 178], 0), ([240, 376, 8230, 176, 239, 184], 0),
      ([240, 376, 8230, 177, 239, 184], 0), ([240, 376, 8224, 381], 0),
      ([240, 376, 8224, 8216], 0), ([240, 376, 8230, 190, 239, 184], 0),
      ([240, 376, 8224, 732], - 3), ([226, 338], - 3), ([226, 173, 8226], 0),
      ([240, 376, 8250, 8216], - 2), ([240, 376, 8250, 161, 239, 184], 0),
      ([240, 376, 710, 175], 0), ([240, 376, 8217, 175], 3), ([240, 376, 8217, 162], - 3),
      ([226, 8482, 168, 239, 184], 0), ([240, 376, 8217, 160], 0),
      ([240, 376, 8221, 176], 0), ([240, 376, 8221, 177], 0), ([226, 339, 8230], 3),
      ([226, 732, 8216, 239, 184], 2), ([240, 376, 8221, 732], 0),
      ([240, 376, 8221, 180], - 1), ([240, 376, 376, 160], 0), ([240, 376, 376, 161], 0),
      ([240, 376, 376, 162], 1), ([240, 376, 8221, 181], 0), ([240, 376, 376, 163], 0),
      ([226, 353, 171], - 1), ([226, 353, 170], 0), ([240, 376, 376, 164], 0),
      ([240, 376, 8221, 186], 0), ([240, 376, 8221, 187], 0), ([240, 376, 8221, 182], 0),
      ([240, 376, 8221, 183], 0), ([240, 376, 8221, 184], 0), ([240, 376, 8221, 185], 0),
      ([240, 376, 8217, 381], 3)]"

text \<open>
  The two loops of \<^verbatim>\<open>analyze_sentiment\<close> over the pair
  \<open>(total_score, word_count)\<close>.
\<close>

definition clean_word :: "string \<Rightarrow> string" where
  "clean_word word = filter is_word_char word"

fun score_words :: "int \<times> int \<Rightarrow> string list \<Rightarrow> int \<times> int" where
  "score_words acc [] = acc"
| "score_words (total_score, word_count) (word # ws) =
     (let cw = clean_word word
      in if cw \<noteq> []
         then (case map_of sentiment_tokens cw of
                 Some v \<Rightarrow> score_words (total_score + v, word_count + 1) ws
               | None \<Rightarrow> score_words (total_score, word_count + 1) ws)
         else score_words (total_score, word_count) ws)"

fun score_emojis :: "nat list \<Rightarrow> int \<times> int \<Rightarrow> (nat list \<times> int) list \<Rightarrow> int \<times> int" where
  "score_emojis text acc [] = acc"
| "score_emojis text (total_score, word_count) ((emoji, score) # es) =
     (if py_in emoji text
      then score_emojis text (total_score + score, word_count + 1) es
      else score_emojis text (total_score, word_count) es)"

definition sentiment_totals :: "string \<Rightarrow> int \<times> int" where
  "sentiment_totals text =
     score_emojis (map code_point text)
       (score_words (0, 0) (py_split (py_lower text))) emoji_sentiment"

text \<open>The average \<^verbatim>\<open>sentiment_score\<close> before it is truncated.\<close>

definition sentiment_average :: "string \<Rightarrow> py_float" where
  "sentiment_average text =
     (let (total_score, word_count) = sentiment_totals text
      in if word_count > 0 then of_int total_score / of_int word_count else 0)"

definition analyze_sentiment :: "string \<Rightarrow> int \<times> int" where
  "analyze_sentiment text =
     (if text = [] then (0, 0)
      else
        let sentiment_score = sentiment_average text;
            normalized_score = max (- 5) (min 5 sentiment_score)
        in (py_int sentiment_score, py_int normalized_score))"

section \<open>The language complexity scorer\<close>







section \<open>The prompt enricher\<close>

text \<open>
  \<^verbatim>\<open>_load_prompt_templates\<close> and \<^verbatim>\<open>_load_personalization_rules\<close>. A rule value
  is a string or a Boolean; the parameters are a dictionary from names to strings.
\<close>

definition prompt_templates :: "(string \<times> string) list" where
  "prompt_templates =
     [(''general'', ''You are a helpful AI assistant. {personalization_context}''),
      (''technical'',
       ''You are a technical AI assistant with expertise in various domains. {personalization_context}''),
      (''casual'',
       ''You are a friendly and conversational AI assistant. {personalization_context}''),
      (''professional'',
       ''You are a professional AI assistant focused on providing accurate and helpful information. {personalization_context}''),
      (''educational'',
       ''You are an educational AI assistant designed to help users learn and understand concepts. {personalization_context}'')]"

datatype rule_value = RStr string | RBool bool

definition personalization_rules ::
  "(string \<times> (string \<times> (string \<times> rule_value) list) list) list" where
  "personalization_rules =
     [(''language_complexity'',
       [(''simple'',
         [(''vocabulary_level'', RStr ''basic''),
          (''sentence_structure'', RStr ''short''),
          (''technical_depth'', RStr ''minimal''),
          (''explanation_style'', RStr ''step_by_step'')]),
        (''medium'',
         [(''vocabulary_level'', RStr ''standard''),
          (''sentence_structure'', RStr ''balanced''),
          (''technical_depth'', RStr ''moderate''),
          (''explanation_style'', RStr ''balanced'')]),
        (''complex'',
         [(''vocabulary_level'', RStr ''advanced''),
          (''sentence_structure'', RStr ''detailed''),
          (''technical_depth'', RStr ''comprehensive''),
          (''explanation_style'', RStr ''comprehensive'')])]),
      (''response_style'',
       [(''conversational'',
         [(''tone'', RStr ''friendly''),
          (''formality'', RStr ''casual''),
          (''interaction_style'', RStr ''engaging''),
          (''use_emojis'', RBool True)]),
        (''balanced'',
         [(''tone'', RStr ''neutral''),
          (''formality'', RStr ''moderate''),
          (''interaction_style'', RStr ''professional''),
          (''use_emojis'', RBool False)]),
        (''professional'',
         [(''tone'', RStr ''formal''),
          (''formality'', RStr ''high''),
          (''interaction_style'', RStr ''business_like''),
          (''use_emojis'', RBool False)]),
        (''enthusiastic'',
         [(''tone'', RStr ''excited''),
          (''formality'', RStr ''casual''),
          (''interaction_style'', RStr ''motivational''),
          (''use_emojis'', RBool True)])]),
      (''detail_level'',
       [(''concise'',
         [(''response_length'', RStr ''short''),
          (''include_examples'', RBool False),
          (''include_context'', RStr ''minimal''),
          (''focus'', RStr ''direct_answer'')]),
        (''medium'',
         [(''response_length'', RStr ''moderate''),
          (''include_examples'', RStr ''when_helpful''),
          (''include_context'', RStr ''relevant''),
          (''focus'', RStr ''balanced'')]),
        (''detailed'',
         [(''response_length'', RStr ''comprehensive''),
          (''include_examples'', RBool True),
          (''include_context'', RStr ''thorough''),
          (''focus'', RStr ''complete_explanation'')])])]"

text \<open>
  \<^verbatim>\<open>self.personalization_rules[category].get(level, {})\<close> followed by
  \<^verbatim>\<open>.get(attribute, default)\<close>, and the value as an f-string prints it.
\<close>

definition rules_for :: "string \<Rightarrow> string \<Rightarrow> (string \<times> rule_value) list" where
  "rules_for category level =
     get_default (map_of (get_default (map_of personalization_rules category) []) level) []"

definition py_str :: "rule_value \<Rightarrow> string" where
  "py_str v = (case v of RStr s \<Rightarrow> s | RBool b \<Rightarrow> (if b then ''True'' else ''False''))"

definition rule_text :: "(string \<times> rule_value) list \<Rightarrow> string \<Rightarrow> string \<Rightarrow> string" where
  "rule_text rules attribute d = py_str (get_default (map_of rules attribute) (RStr d))"

text \<open>\<^verbatim>\<open>". ".join(parts)\<close>.\<close>

fun join :: "string \<Rightarrow> string list \<Rightarrow> string" where
  "join sep [] = []"
| "join sep [x] = x"
| "join sep (x # y # ys) = x @ sep @ join sep (y # ys)"

text \<open>\<^verbatim>\<open>_create_personalization_context\<close>.\<close>

definition create_personalization_context :: "(string \<rightharpoonup> string) \<Rightarrow> string" where
  "create_personalization_context params =
     (let complexity_rules =
            rules_for ''language_complexity''
              (get_default (params ''language_complexity'') ''medium'');
          style_rules =
            rules_for ''response_style'' (get_default (params ''response_style'') ''balanced'');
          detail_rules =
            rules_for ''detail_level'' (get_default (params ''detail_level'') ''medium'');
          user_type = get_default (params ''user_type'') ''general'';
          engagement_level = get_default (params ''engagement_level'') ''medium'';
          sentiment_preference = get_default (params ''sentiment_preference'') ''neutral'';
          context_parts =
            [''Use '' @ rule_text complexity_rules ''vocabulary_level'' ''standard''
               @ '' vocabulary'',
             ''Provide '' @ rule_text complexity_rules ''explanation_style'' ''balanced''
               @ '' explanations'',
             ''Maintain a '' @ rule_text style_rules ''tone'' ''neutral'' @ '' tone'',
             ''Use '' @ rule_text style_rules ''formality'' ''moderate'' @ '' language'',
             ''Provide '' @ rule_text detail_rules ''response_length'' ''moderate''
               @ '' responses'']
            @ (if user_type = ''technical''
               then [''Include technical details and specifications when relevant'']
               else if user_type = ''casual''
               then [''Keep responses friendly and approachable'']
               else if user_type = ''professional''
               then [''Focus on accuracy and professional presentation'']
               else [])
            @ (if engagement_level = ''high''
               then [''Encourage continued interaction and ask follow-up questions'']
               else if engagement_level = ''low''
               then [''Provide direct, concise answers to maintain user interest'']
               else [])
            @ (if sentiment_preference = ''positive''
               then [''Maintain an encouraging and positive tone'']
               else if sentiment_preference = ''negative''
               then [''Be empathetic and supportive in responses'']
               else [])
      in join ''. '' context_parts @ ''.'')"

text \<open>\<^verbatim>\<open>_select_template\<close>; the five keys are all in the table.\<close>

definition template_named :: "string \<Rightarrow> string" where
  "template_named name = get_default (map_of prompt_templates name) []"

definition select_template :: "(string \<rightharpoonup> string) \<Rightarrow> string" where
  "select_template params =
     (let user_type = get_default (params ''user_type'') ''general''
      in if user_type = ''technical'' then template_named ''technical''
         else if user_type = ''casual'' then template_named ''casual''
         else if user_type = ''professional'' then template_named ''professional''
         else if user_type = ''educational'' then template_named ''educational''
         else template_named ''general'')"

text \<open>
  \<^verbatim>\<open>template.format(personalization_context=...)\<close>: the field
  \<^verbatim>\<open>{personalization_context}\<close> is replaced by the context wherever it stands; the
  templates hold no other brace.
\<close>

definition placeholder :: string where
  "placeholder = ''{personalization_context}''"

function format_template :: "string \<Rightarrow> string \<Rightarrow> string" where
  "format_template [] ctx = []"
| "format_template (c # cs) ctx =
     (if startswith (c # cs) placeholder
      then ctx @ format_template (drop (length placeholder) (c # cs)) ctx
      else c # format_template cs ctx)"
  by pat_completeness auto
termination
  by (relation "measure (\<lambda>(t, ctx). length t)") (auto simp: placeholder_def)

text \<open>\<^verbatim>\<open>enrich_prompt\<close>; the user id is not used.\<close>

definition newline :: string where
  "newline = [CHR 0x0A]"

definition enrich_prompt :: "string \<Rightarrow> string \<Rightarrow> (string \<rightharpoonup> string) \<Rightarrow> string" where
  "enrich_prompt base_prompt uid personalization_params =
     (let personalization_context = create_personalization_context personalization_params;
          template = select_template personalization_params;
          system_prompt = format_template template personalization_context
      in system_prompt @ newline @ newline @ ''User: '' @ base_prompt
           @ newline @ newline @ ''Assistant:'')"

section \<open>Event sequences\<close>

text \<open>
  \<^verbatim>\<open>UserProfiler.__init__\<close> with no profile on disk, and a sequence of feedback
  events applied to one profile, each with the clock reading of its arrival.
\<close>

definition new_profiler :: profiler where
  "new_profiler = \<lparr>user_profiles = Map.empty, pattern_cache = Map.empty\<rparr>"

fun apply_feedback_events :: "profile \<Rightarrow> (feedback_data \<times> timestamp) list \<Rightarrow> profile" where
  "apply_feedback_events p [] = p"
| "apply_feedback_events p ((d, now) # es) = apply_feedback_events (apply_feedback p d now) es"

definition ratios_in_range :: "profile \<Rightarrow> bool" where
  "ratios_in_range p =
     (0 \<le> feedback_ratio p \<and> feedback_ratio p \<le> 1
      \<and> 0 \<le> positive_feedback_ratio p \<and> positive_feedback_ratio p \<le> 1)"

text \<open>
  A sequence of message and feedback events, with no session-end event among them, fed
  to the profiler in order.
\<close>

datatype event = Message prompt_data | Feedback feedback_data

fun process_events ::
  "(string \<Rightarrow> language_analysis) \<Rightarrow> profiler \<Rightarrow> (event \<times> timestamp) list \<Rightarrow> profiler" where
  "process_events an st [] = st"
| "process_events an st ((Message d, now) # es) =
     process_events an (update_profile_from_prompt an st d now) es"
| "process_events an st ((Feedback d, now) # es) =
     process_events an (update_profile_from_feedback st d now) es"

section \<open>Quantities the properties are stated with\<close>

text \<open>
  The typing speed of a message in characters per second, as
  \<^verbatim>\<open>_update_profile_metrics\<close> computes it when the duration is positive.
\<close>

definition typing_speed :: "prompt_data \<Rightarrow> py_float" where
  "typing_speed d =
     of_nat (length (pd_input_text d))
       / (of_int (pd_input_end_time d - pd_input_start_time d) / 1000)"

text \<open>
  The tokens of a text that are not empty once their punctuation is stripped, the score
  of a token (0 when the lexicon does not hold it), and the entries of the emoji table
  that occur in the text.
\<close>

definition informative_tokens :: "string \<Rightarrow> string list" where
  "informative_tokens text =
     filter (\<lambda>w. w \<noteq> []) (map clean_word (py_split (py_lower text)))"

definition lexicon_score :: "string \<Rightarrow> int" where
  "lexicon_score w = get_default (map_of sentiment_tokens w) 0"

definition emojis_present :: "string \<Rightarrow> (nat list \<times> int) list" where
  "emojis_present text = filter (\<lambda>(e, s). py_in e (map code_point text)) emoji_sentiment"

section \<open>Properties of the profile updater\<close>

subsection \<open>Fields that an update leaves alone or sets\<close>

lemma session_history_language_analysis:
  "session_history (update_profile_from_language_analysis p a) = session_history p"
  by (simp add: update_profile_from_language_analysis_def Let_def)

lemma session_history_metrics:
  "session_history (update_profile_metrics p d) = session_history p"
  by (simp add: update_profile_metrics_def Let_def)

lemma session_history_apply_prompt:
  "session_history (apply_prompt an p d now) = session_history p"
  by (simp add: apply_prompt_def Let_def session_history_language_analysis
      session_history_metrics)

lemma session_history_personalization:
  "session_history (update_personalization_from_feedback p d now) = session_history p"
  by (simp add: update_personalization_from_feedback_def Let_def)

lemma session_history_apply_feedback:
  "session_history (apply_feedback p d now) = session_history p"
  by (simp add: apply_feedback_def Let_def session_history_personalization)

lemma session_history_default_profile: "session_history (default_profile uid now) = []"
  by (simp add: default_profile_def)

lemma insights_language_analysis:
  "cross_session_insights (update_profile_from_language_analysis p a) = cross_session_insights p"
  by (simp add: update_profile_from_language_analysis_def Let_def)

lemma insights_metrics:
  "cross_session_insights (update_profile_metrics p d) = cross_session_insights p"
  by (simp add: update_profile_metrics_def Let_def)

lemma insights_apply_prompt:
  "cross_session_insights (apply_prompt an p d now) = cross_session_insights p"
  by (simp add: apply_prompt_def Let_def insights_language_analysis insights_metrics)

lemma insights_personalization:
  "cross_session_insights (update_personalization_from_feedback p d now)
     = cross_session_insights p"
  by (simp add: update_personalization_from_feedback_def Let_def)

lemma insights_apply_feedback:
  "cross_session_insights (apply_feedback p d now) = cross_session_insights p"
  by (simp add: apply_feedback_def Let_def insights_personalization)

lemma insights_default_profile: "cross_session_insights (default_profile uid now) = None"
  by (simp add: default_profile_def)

subsection \<open>The cross-session refresh without sessions\<close>

lemma refresh_without_sessions:
  "user_profiles st uid = Some p \<Longrightarrow> session_history p = [] \<Longrightarrow>
   update_cross_session_learning st uid now = st"
  by (simp add: update_cross_session_learning_def analyze_user_patterns_def)

lemma prompt_without_sessions:
  assumes "session_history p = []"
    and "user_profiles st (pd_user_id d) = Some p
         \<or> user_profiles st (pd_user_id d) = None \<and> p = default_profile (pd_user_id d) now"
  shows "user_profiles (update_profile_from_prompt an st d now)
           = (user_profiles st)(pd_user_id d \<mapsto> apply_prompt an p d now)"
  using assms
  by (auto simp: update_profile_from_prompt_def get_user_profile_def create_user_profile_def
      Let_def refresh_without_sessions session_history_apply_prompt)

lemma feedback_without_sessions:
  assumes "session_history p = []"
    and "user_profiles st (fd_user_id d) = Some p
         \<or> user_profiles st (fd_user_id d) = None \<and> p = default_profile (fd_user_id d) now"
  shows "user_profiles (update_profile_from_feedback st d now)
           = (user_profiles st)(fd_user_id d \<mapsto> apply_feedback p d now)"
  using assms
  by (auto simp: update_profile_from_feedback_def get_user_profile_def create_user_profile_def
      Let_def refresh_without_sessions session_history_apply_feedback)

subsection \<open>Typing speed\<close>

lemma typing_speed_language_analysis:
  "average_typing_speed (update_profile_from_language_analysis p a) = average_typing_speed p"
  by (simp add: update_profile_from_language_analysis_def Let_def)

lemma typing_speed_metrics:
  "average_typing_speed (update_profile_metrics p d) =
     (if pd_input_start_time d < pd_input_end_time d \<and> pd_input_text d \<noteq> []
      then (average_typing_speed p + typing_speed d) / 2
      else average_typing_speed p)"
  by (simp add: update_profile_metrics_def typing_speed_def Let_def)

lemma typing_speed_apply_prompt:
  "average_typing_speed (apply_prompt an p d now) =
     (if pd_input_start_time d < pd_input_end_time d \<and> pd_input_text d \<noteq> []
      then (average_typing_speed p + typing_speed d) / 2
      else average_typing_speed p)"
  by (simp add: apply_prompt_def Let_def typing_speed_metrics typing_speed_language_analysis)

lemma typing_speed_positive:
  "pd_input_start_time d < pd_input_end_time d \<Longrightarrow> pd_input_text d \<noteq> [] \<Longrightarrow>
   0 < typing_speed d"
  by (simp add: typing_speed_def)

text \<open>
  C1, as the code has it. Applying a message event to a profile leaves
  average_typing_speed unchanged when input_end_time <= input_start_time or when the text
  is empty. Otherwise the speed v = character_count / elapsed_seconds is positive and,
  for a nonzero old average, the new average is (old + v) / 2.
\<close>

theorem typing_speed_update:
  "(pd_input_end_time d \<le> pd_input_start_time d \<or> pd_input_text d = [] \<longrightarrow>
      average_typing_speed (apply_prompt an p d now) = average_typing_speed p)
   \<and> (pd_input_start_time d < pd_input_end_time d \<and> pd_input_text d \<noteq> []
        \<and> average_typing_speed p \<noteq> 0 \<longrightarrow>
      0 < typing_speed d
      \<and> average_typing_speed (apply_prompt an p d now)
          = (average_typing_speed p + typing_speed d) / 2)"
  by (auto simp: typing_speed_apply_prompt typing_speed_positive)

text \<open>
  Both cases occur: a message whose typing interval is empty, and a ten-character
  message typed in one second on an old average of 4, which gives (4 + 10) / 2 = 7.
\<close>

theorem typing_speed_update_witness:
  "(pd_input_end_time
      \<lparr>pd_user_id = ''u3'', pd_input_text = ''0123456789'', pd_input_start_time = 2000,
       pd_input_end_time = 2000, pd_input_sent_time = 2100\<rparr>
    \<le> pd_input_start_time
      \<lparr>pd_user_id = ''u3'', pd_input_text = ''0123456789'', pd_input_start_time = 2000,
       pd_input_end_time = 2000, pd_input_sent_time = 2100\<rparr>
    \<and> average_typing_speed
        (apply_prompt (\<lambda>t. \<lparr>la_complexity_level = None, la_vocabulary_level = None,
                             la_sentiment_label = None, la_enthusiasm_level = None\<rparr>)
           ((default_profile ''u3'' 0)\<lparr>average_typing_speed := 4\<rparr>)
           \<lparr>pd_user_id = ''u3'', pd_input_text = ''0123456789'', pd_input_start_time = 2000,
            pd_input_end_time = 2000, pd_input_sent_time = 2100\<rparr> 5) = 4)
   \<and> (average_typing_speed ((default_profile ''u3'' 0)\<lparr>average_typing_speed := 4\<rparr>) \<noteq> 0
      \<and> typing_speed
          \<lparr>pd_user_id = ''u3'', pd_input_text = ''0123456789'', pd_input_start_time = 0,
           pd_input_end_time = 1000, pd_input_sent_time = 1200\<rparr> = 10
      \<and> average_typing_speed
          (apply_prompt (\<lambda>t. \<lparr>la_complexity_level = None, la_vocabulary_level = None,
                               la_sentiment_label = None, la_enthusiasm_level = None\<rparr>)
             ((default_profile ''u3'' 0)\<lparr>average_typing_speed := 4\<rparr>)
             \<lparr>pd_user_id = ''u3'', pd_input_text = ''0123456789'', pd_input_start_time = 0,
              pd_input_end_time = 1000, pd_input_sent_time = 1200\<rparr> 5) = 7)"
  using
    typing_speed_update [of
      "\<lparr>pd_user_id = ''u3'', pd_input_text = ''0123456789'', pd_input_start_time = 2000,
        pd_input_end_time = 2000, pd_input_sent_time = 2100\<rparr>"
      "\<lambda>t. \<lparr>la_complexity_level = None, la_vocabulary_level = None,
            la_sentiment_label = None, la_enthusiasm_level = None\<rparr>"
      "(default_profile ''u3'' 0)\<lparr>average_typing_speed := 4\<rparr>" 5]
    typing_speed_update [of
      "\<lparr>pd_user_id = ''u3'', pd_input_text = ''0123456789'', pd_input_start_time = 0,
        pd_input_end_time = 1000, pd_input_sent_time = 1200\<rparr>"
      "\<lambda>t. \<lparr>la_complexity_level = None, la_vocabulary_level = None,
            la_sentiment_label = None, la_enthusiasm_level = None\<rparr>"
      "(default_profile ''u3'' 0)\<lparr>average_typing_speed := 4\<rparr>" 5]
  by (simp add: typing_speed_def)

text \<open>
  The claim as stated fails twice. On an old average of 0, a ten-character message typed
  in one second has v = 10 and gives 5, not v. On an old average of 4, an empty message
  with a positive typing interval has v = 0 and leaves 4, not (4 + v) / 2.
\<close>

theorem typing_speed_update_counterexample:
  "(average_typing_speed (default_profile ''u3'' 0) = 0
    \<and> pd_input_start_time
        \<lparr>pd_user_id = ''u3'', pd_input_text = ''0123456789'', pd_input_start_time = 0,
         pd_input_end_time = 1000, pd_input_sent_time = 1200\<rparr>
      < pd_input_end_time
        \<lparr>pd_user_id = ''u3'', pd_input_text = ''0123456789'', pd_input_start_time = 0,
         pd_input_end_time = 1000, pd_input_sent_time = 1200\<rparr>
    \<and> average_typing_speed
        (apply_prompt (\<lambda>t. \<lparr>la_complexity_level = None, la_vocabulary_level = None,
                             la_sentiment_label = None, la_enthusiasm_level = None\<rparr>)
           (default_profile ''u3'' 0)
           \<lparr>pd_user_id = ''u3'', pd_input_text = ''0123456789'', pd_input_start_time = 0,
            pd_input_end_time = 1000, pd_input_sent_time = 1200\<rparr> 5)
      \<noteq> typing_speed
          \<lparr>pd_user_id = ''u3'', pd_input_text = ''0123456789'', pd_input_start_time = 0,
           pd_input_end_time = 1000, pd_input_sent_time = 1200\<rparr>)
   \<and> (average_typing_speed ((default_profile ''u3'' 0)\<lparr>average_typing_speed := 4\<rparr>) \<noteq> 0
      \<and> pd_input_start_time
          \<lparr>pd_user_id = ''u3'', pd_input_text = [], pd_input_start_time = 0,
           pd_input_end_time = 1000, pd_input_sent_time = 1200\<rparr>
        < pd_input_end_time
          \<lparr>pd_user_id = ''u3'', pd_input_text = [], pd_input_start_time = 0,
           pd_input_end_time = 1000, pd_input_sent_time = 1200\<rparr>
      \<and> average_typing_speed
          (apply_prompt (\<lambda>t. \<lparr>la_complexity_level = None, la_vocabulary_level = None,
                               la_sentiment_label = None, la_enthusiasm_level = None\<rparr>)
             ((default_profile ''u3'' 0)\<lparr>average_typing_speed := 4\<rparr>)
             \<lparr>pd_user_id = ''u3'', pd_input_text = [], pd_input_start_time = 0,
              pd_input_end_time = 1000, pd_input_sent_time = 1200\<rparr> 5)
        \<noteq> (average_typing_speed ((default_profile ''u3'' 0)\<lparr>average_typing_speed := 4\<rparr>)
             + typing_speed
                 \<lparr>pd_user_id = ''u3'', pd_input_text = [], pd_input_start_time = 0,
                  pd_input_end_time = 1000, pd_input_sent_time = 1200\<rparr>) / 2)"
  by (simp add: typing_speed_apply_prompt typing_speed_def default_profile_def)


subsection \<open>Feedback history and detail level\<close>

lemma feedback_history_personalization:
  "length (feedback_history (update_personalization_from_feedback p d now))
     = Suc (length (feedback_history p))"
  by (simp add: update_personalization_from_feedback_def Let_def)

lemma detail_level_personalization:
  "preferred_detail_level (update_personalization_from_feedback p d now) =
     (if fd_feedback_type d = ''positive''
      then (if preferred_detail_level p = ''concise'' then ''medium''
            else if preferred_detail_level p = ''medium'' then ''detailed''
            else preferred_detail_level p)
      else if fd_feedback_type d = ''negative''
      then (if preferred_detail_level p = ''detailed'' then ''medium''
            else if preferred_detail_level p = ''medium'' then ''concise''
            else preferred_detail_level p)
      else preferred_detail_level p)"
  by (simp add: update_personalization_from_feedback_def Let_def)

text \<open>
  A positive or negative event adds two entries to the history, one in
  \<^verbatim>\<open>update_profile_from_feedback\<close> and one in its helper; the detail level moves one
  step and saturates.
\<close>

lemma feedback_history_apply_feedback:
  "length (feedback_history (apply_feedback p d now)) =
     (if fd_feedback_type d = ''positive'' \<or> fd_feedback_type d = ''negative''
      then length (feedback_history p) + 2 else length (feedback_history p) + 1)"
  by (simp add: apply_feedback_def Let_def feedback_history_personalization)

lemma detail_level_apply_feedback:
  "preferred_detail_level (apply_feedback p d now) =
     (if fd_feedback_type d = ''positive''
      then (if preferred_detail_level p = ''concise'' then ''medium''
            else if preferred_detail_level p = ''medium'' then ''detailed''
            else preferred_detail_level p)
      else if fd_feedback_type d = ''negative''
      then (if preferred_detail_level p = ''detailed'' then ''medium''
            else if preferred_detail_level p = ''medium'' then ''concise''
            else preferred_detail_level p)
      else preferred_detail_level p)"
  by (simp add: apply_feedback_def Let_def detail_level_personalization)

text \<open>
  C2 at a concrete input. A user with a fresh profile sends one positive feedback event:
  the detail level moves from medium to detailed, as the claim says, but the history
  holds two entries afterwards, not one.
\<close>

theorem one_feedback_event_two_history_entries:
  "map_option (\<lambda>p. (length (feedback_history p), preferred_detail_level p))
     (user_profiles
        (update_profile_from_feedback
           \<lparr>user_profiles = [''u6'' \<mapsto> default_profile ''u6'' 0], pattern_cache = Map.empty\<rparr>
           \<lparr>fd_user_id = ''u6'', fd_response_text = ''Sure.'', fd_response_duration = 1200,
            fd_feedback_type = ''positive'', fd_feedback_delay_duration = 4000\<rparr> 7) ''u6'')
   = Some (2, ''detailed'')"
proof -
  let ?st = "\<lparr>user_profiles = [''u6'' \<mapsto> default_profile ''u6'' 0],
              pattern_cache = Map.empty\<rparr>"
  let ?fd = "\<lparr>fd_user_id = ''u6'', fd_response_text = ''Sure.'', fd_response_duration = 1200,
              fd_feedback_type = ''positive'', fd_feedback_delay_duration = 4000\<rparr>"
  have "user_profiles ?st (fd_user_id ?fd) = Some (default_profile ''u6'' 0)
        \<or> user_profiles ?st (fd_user_id ?fd) = None
          \<and> default_profile ''u6'' 0 = default_profile (fd_user_id ?fd) 7"
    by simp
  with session_history_default_profile
  have "user_profiles (update_profile_from_feedback ?st ?fd 7)
          = (user_profiles ?st)(fd_user_id ?fd \<mapsto> apply_feedback (default_profile ''u6'' 0) ?fd 7)"
    by (rule feedback_without_sessions)
  then show ?thesis
    by (simp add: feedback_history_apply_feedback detail_level_apply_feedback
        default_profile_def)
qed

subsection \<open>Feedback ratios\<close>

lemma feedback_ratio_personalization:
  "feedback_ratio (update_personalization_from_feedback p d now)
     = min 1 (feedback_ratio p + 1 / 10)"
  by (simp add: update_personalization_from_feedback_def Let_def)

lemma positive_ratio_personalization:
  "positive_feedback_ratio (update_personalization_from_feedback p d now) =
     (if fd_feedback_type d = ''positive'' then min 1 (positive_feedback_ratio p + 1 / 10)
      else if fd_feedback_type d = ''negative'' then max 0 (positive_feedback_ratio p - 1 / 10)
      else positive_feedback_ratio p)"
  by (simp add: update_personalization_from_feedback_def Let_def)

lemma feedback_ratio_step:
  "feedback_ratio (apply_feedback p d now) = min 1 (feedback_ratio p + 1 / 10)"
  by (simp add: apply_feedback_def Let_def feedback_ratio_personalization)

lemma positive_ratio_step:
  "positive_feedback_ratio (apply_feedback p d now) =
     (if fd_feedback_type d = ''positive'' then min 1 (positive_feedback_ratio p + 1 / 10)
      else if fd_feedback_type d = ''negative'' then max 0 (positive_feedback_ratio p - 1 / 10)
      else positive_feedback_ratio p)"
  by (simp add: apply_feedback_def Let_def positive_ratio_personalization)

lemma ratios_in_range_step: "ratios_in_range p \<Longrightarrow> ratios_in_range (apply_feedback p d now)"
  unfolding ratios_in_range_def feedback_ratio_step positive_ratio_step
  by (auto simp: min_def max_def)

lemma ratios_in_range_events:
  "ratios_in_range p \<Longrightarrow> ratios_in_range (apply_feedback_events p es)"
  by (induction es arbitrary: p) (auto simp: ratios_in_range_step)

text \<open>
  C5. A profile whose feedback_ratio and positive_feedback_ratio lie in [0,1] keeps them
  in [0,1] after every prefix of every finite sequence of feedback events, whatever the
  feedback types. One event sets feedback_ratio to min(1, old + 0.1); it sets
  positive_feedback_ratio to min(1, old + 0.1) when positive and to max(0, old - 0.1) when
  negative.
\<close>

theorem feedback_ratios_stay_in_unit_interval:
  assumes "ratios_in_range p"
  shows "ratios_in_range (apply_feedback_events p (take n es))
         \<and> feedback_ratio (apply_feedback p d now) = min 1 (feedback_ratio p + 1 / 10)
         \<and> (fd_feedback_type d = ''positive'' \<longrightarrow>
              positive_feedback_ratio (apply_feedback p d now)
                = min 1 (positive_feedback_ratio p + 1 / 10))
         \<and> (fd_feedback_type d = ''negative'' \<longrightarrow>
              positive_feedback_ratio (apply_feedback p d now)
                = max 0 (positive_feedback_ratio p - 1 / 10))"
  using assms by (simp add: ratios_in_range_events feedback_ratio_step positive_ratio_step)

text \<open>
  The hypothesis holds for a fresh profile, here followed by fifty positive events and
  with a negative event as the single step.
\<close>

theorem feedback_ratios_stay_in_unit_interval_witness:
  "ratios_in_range (default_profile ''u1'' 0)
   \<and> ratios_in_range
        (apply_feedback_events (default_profile ''u1'' 0)
           (take 50 (replicate 50
              (\<lparr>fd_user_id = ''u1'', fd_response_text = ''Sure.'', fd_response_duration = 1200,
                fd_feedback_type = ''positive'', fd_feedback_delay_duration = 4000\<rparr>, 7))))
   \<and> positive_feedback_ratio
        (apply_feedback (default_profile ''u1'' 0)
           \<lparr>fd_user_id = ''u1'', fd_response_text = ''Sure.'', fd_response_duration = 1200,
            fd_feedback_type = ''negative'', fd_feedback_delay_duration = 4000\<rparr> 7) = 0"
proof -
  have h: "ratios_in_range (default_profile ''u1'' 0)"
    by (simp add: ratios_in_range_def default_profile_def)
  have z: "positive_feedback_ratio (default_profile ''u1'' 0) = 0"
    by (simp add: default_profile_def)
  show ?thesis
    using h z feedback_ratios_stay_in_unit_interval [OF h, of 50
        "replicate 50
           (\<lparr>fd_user_id = ''u1'', fd_response_text = ''Sure.'', fd_response_duration = 1200,
             fd_feedback_type = ''positive'', fd_feedback_delay_duration = 4000\<rparr>, 7)"
        "\<lparr>fd_user_id = ''u1'', fd_response_text = ''Sure.'', fd_response_duration = 1200,
          fd_feedback_type = ''negative'', fd_feedback_delay_duration = 4000\<rparr>" 7]
    by simp
qed

subsection \<open>Unknown users\<close>

text \<open>
  C3, as the code has it. For a user without a profile, a message event and a feedback
  event store the default profile (medium complexity, medium detail, conversational
  style, aggregates 0, grammatical accuracy 1) with the event applied to it; a session-end
  event returns None and leaves the profiler as it was.
\<close>

theorem unknown_user_created_by_message_and_feedback:
  assumes "user_profiles st uid = None"
  shows "user_profiles (update_profile_from_prompt an st (d\<lparr>pd_user_id := uid\<rparr>) now) uid
           = Some (apply_prompt an (default_profile uid now) (d\<lparr>pd_user_id := uid\<rparr>) now)
         \<and> user_profiles (update_profile_from_feedback st (f\<lparr>fd_user_id := uid\<rparr>) now) uid
           = Some (apply_feedback (default_profile uid now) (f\<lparr>fd_user_id := uid\<rparr>) now)
         \<and> update_profile_from_session st uid sd now = (None, st)"
proof -
  have "user_profiles (update_profile_from_prompt an st (d\<lparr>pd_user_id := uid\<rparr>) now)
          = (user_profiles st)(pd_user_id (d\<lparr>pd_user_id := uid\<rparr>) \<mapsto>
              apply_prompt an (default_profile uid now) (d\<lparr>pd_user_id := uid\<rparr>) now)"
    using assms by (intro prompt_without_sessions session_history_default_profile) simp
  moreover
  have "user_profiles (update_profile_from_feedback st (f\<lparr>fd_user_id := uid\<rparr>) now)
          = (user_profiles st)(fd_user_id (f\<lparr>fd_user_id := uid\<rparr>) \<mapsto>
              apply_feedback (default_profile uid now) (f\<lparr>fd_user_id := uid\<rparr>) now)"
    using assms by (intro feedback_without_sessions session_history_default_profile) simp
  moreover
  have "update_profile_from_session st uid sd now = (None, st)"
    using assms by (simp add: update_profile_from_session_def get_user_profile_def)
  ultimately show ?thesis by simp
qed

theorem unknown_user_created_by_message_and_feedback_witness:
  "user_profiles new_profiler ''u2'' = None
   \<and> user_profiles
       (update_profile_from_feedback new_profiler
          \<lparr>fd_user_id = ''u2'', fd_response_text = ''Sure.'', fd_response_duration = 1200,
           fd_feedback_type = ''positive'', fd_feedback_delay_duration = 4000\<rparr> 7) ''u2''
     = Some (apply_feedback (default_profile ''u2'' 7)
          \<lparr>fd_user_id = ''u2'', fd_response_text = ''Sure.'', fd_response_duration = 1200,
           fd_feedback_type = ''positive'', fd_feedback_delay_duration = 4000\<rparr> 7)
   \<and> update_profile_from_session new_profiler ''u2''
        \<lparr>sd_session_id = ''s1'', sd_session_start = 1000, sd_session_end = Some 11000,
         sd_session_end_type = Some ''completed'', sd_session_duration = 10000,
         sd_engagement_time = None\<rparr> 7 = (None, new_profiler)"
proof -
  have h: "user_profiles new_profiler ''u2'' = None" by (simp add: new_profiler_def)
  show ?thesis
    using h unknown_user_created_by_message_and_feedback [OF h,
        of "\<lambda>t. \<lparr>la_complexity_level = None, la_vocabulary_level = None,
                  la_sentiment_label = None, la_enthusiasm_level = None\<rparr>"
           "\<lparr>pd_user_id = ''u2'', pd_input_text = ''Hello'', pd_input_start_time = 0,
             pd_input_end_time = 1000, pd_input_sent_time = 1200\<rparr>" 7
           "\<lparr>fd_user_id = ''u2'', fd_response_text = ''Sure.'', fd_response_duration = 1200,
             fd_feedback_type = ''positive'', fd_feedback_delay_duration = 4000\<rparr>"
           "\<lparr>sd_session_id = ''s1'', sd_session_start = 1000, sd_session_end = Some 11000,
             sd_session_end_type = Some ''completed'', sd_session_duration = 10000,
             sd_engagement_time = None\<rparr>"]
    by simp
qed

text \<open>
  The claim as stated fails for the session-end event: for a user without a profile it
  returns None and no profile exists afterwards.
\<close>

theorem session_event_unknown_user_counterexample:
  "fst (update_profile_from_session new_profiler ''u2''
          \<lparr>sd_session_id = ''s1'', sd_session_start = 1000, sd_session_end = Some 11000,
           sd_session_end_type = Some ''completed'', sd_session_duration = 10000,
           sd_engagement_time = None\<rparr> 7) = None
   \<and> user_profiles
        (snd (update_profile_from_session new_profiler ''u2''
                \<lparr>sd_session_id = ''s1'', sd_session_start = 1000, sd_session_end = Some 11000,
                 sd_session_end_type = Some ''completed'', sd_session_duration = 10000,
                 sd_engagement_time = None\<rparr> 7)) ''u2'' = None"
  by (simp add: update_profile_from_session_def get_user_profile_def new_profiler_def)


section \<open>Properties of the cross-session learner\<close>

subsection \<open>Communication consistency\<close>

lemma consistency_score_of_profiler_values:
  assumes "preferred_language_complexity p \<in> {''simple'', ''medium'', ''complex''}"
    and "preferred_detail_level p \<in> {''concise'', ''medium'', ''detailed''}"
  shows "consistency_score p
           = (if preferred_response_style p = ''conversational'' then 4 / 10 else 0)"
proof -
  have "preferred_language_complexity p \<noteq> ''intermediate''"
    using assms(1) by auto
  moreover have "preferred_detail_level p \<noteq> ''balanced''"
    using assms(2) by auto
  ultimately show ?thesis by (simp add: consistency_score_def Let_def)
qed

text \<open>
  C7 at a concrete input. The profile with the default preferences (medium complexity,
  medium detail, conversational style) scores 0.4, not 1.0: the score compares the
  complexity with ``intermediate'' and the detail level with ``balanced'', values that
  the profiler never writes.
\<close>

theorem default_profile_consistency_score:
  "preferred_language_complexity (default_profile ''u4'' 0) = ''medium''
   \<and> preferred_detail_level (default_profile ''u4'' 0) = ''medium''
   \<and> preferred_response_style (default_profile ''u4'' 0) = ''conversational''
   \<and> communication_consistency (analyze_communication_patterns (default_profile ''u4'' 0))
       = 4 / 10"
  by (simp add: consistency_score_def analyze_communication_patterns_def default_profile_def
      Let_def)

subsection \<open>Completion rate\<close>

text \<open>
  No session entry has a key \<^verbatim>\<open>session_end_type\<close>, so the count of completed
  sessions is 0 for every history.
\<close>

lemma completion_rate_always_zero: "calculate_completion_rate sessions = 0"
  by (simp add: calculate_completion_rate_def session_entry_get_def session_entry_items_def
      Let_def)

text \<open>
  C8 at a concrete input. A user with a profile ends one session with end type
  ``completed'': the recorded entry has that end type, one of one sessions is completed,
  and the session_completion_rate stored with the insights is 0, not 1.
\<close>

theorem completed_session_rate_zero:
  "(case fst (update_profile_from_session
               \<lparr>user_profiles = [''u5'' \<mapsto> default_profile ''u5'' 0],
                pattern_cache = Map.empty\<rparr> ''u5''
               \<lparr>sd_session_id = ''s1'', sd_session_start = 1000, sd_session_end = Some 11000,
                sd_session_end_type = Some ''completed'', sd_session_duration = 10000,
                sd_engagement_time = None\<rparr> 20000) of
      None \<Rightarrow> False
    | Some p \<Rightarrow>
        map se_end_type (session_history p) = [Some ''completed'']
        \<and> map_option (\<lambda>a. map_option session_completion_rate (an_engagement a))
             (cross_session_insights p) = Some (Some 0))"
  by (simp add: update_profile_from_session_def get_user_profile_def Let_def
      update_cross_session_learning_def analyze_user_patterns_def apply_session_def
      default_profile_def analyze_engagement_patterns_def completion_rate_always_zero)

subsection \<open>No sessions, no patterns\<close>

text \<open>
  C10. For a profile whose session_history is empty, analyze_user_patterns returns the
  empty result (no patterns, no insights, no recommendations) and leaves the pattern
  cache unchanged, whatever the feedback_history holds.
\<close>

theorem no_sessions_no_patterns:
  assumes "profiles uid = Some p" and "session_history p = []"
  shows "analyze_user_patterns cache uid profiles now = (None, cache)"
  using assms by (simp add: analyze_user_patterns_def)

text \<open>The witness is a profile with two feedback entries and no session.\<close>

theorem no_sessions_no_patterns_witness:
  "feedback_history
     (apply_feedback (default_profile ''u7'' 0)
        \<lparr>fd_user_id = ''u7'', fd_response_text = ''Sure.'', fd_response_duration = 1200,
         fd_feedback_type = ''positive'', fd_feedback_delay_duration = 4000\<rparr> 7) \<noteq> []
   \<and> session_history
       (apply_feedback (default_profile ''u7'' 0)
          \<lparr>fd_user_id = ''u7'', fd_response_text = ''Sure.'', fd_response_duration = 1200,
           fd_feedback_type = ''positive'', fd_feedback_delay_duration = 4000\<rparr> 7) = []
   \<and> analyze_user_patterns Map.empty ''u7''
       [''u7'' \<mapsto> apply_feedback (default_profile ''u7'' 0)
          \<lparr>fd_user_id = ''u7'', fd_response_text = ''Sure.'', fd_response_duration = 1200,
           fd_feedback_type = ''positive'', fd_feedback_delay_duration = 4000\<rparr> 7] 9
     = (None, Map.empty)"
proof -
  let ?p = "apply_feedback (default_profile ''u7'' 0)
        \<lparr>fd_user_id = ''u7'', fd_response_text = ''Sure.'', fd_response_duration = 1200,
         fd_feedback_type = ''positive'', fd_feedback_delay_duration = 4000\<rparr> 7"
  have f: "length (feedback_history ?p) = 2"
    by (simp add: feedback_history_apply_feedback default_profile_def)
  have s: "session_history ?p = []"
    by (simp add: session_history_apply_feedback session_history_default_profile)
  have m: "[''u7'' \<mapsto> ?p] ''u7'' = Some ?p" by simp
  from f have "feedback_history ?p \<noteq> []" by auto
  with m s no_sessions_no_patterns [of "[''u7'' \<mapsto> ?p]" "''u7''" ?p Map.empty 9]
  show ?thesis by simp
qed

text \<open>
  Consequently a user who has only sent messages and feedback has no cross-session
  insights: after any sequence of message and feedback events on a fresh profiler, no
  profile has a session or a stored insight, and the analysis of any user is empty.
\<close>

lemma no_session_invariant_prompt:
  assumes "\<forall>uid p. user_profiles st uid = Some p \<longrightarrow>
             session_history p = [] \<and> cross_session_insights p = None"
  shows "\<forall>uid p. user_profiles (update_profile_from_prompt an st d now) uid = Some p \<longrightarrow>
           session_history p = [] \<and> cross_session_insights p = None"
proof -
  define p0 where "p0 = (case user_profiles st (pd_user_id d) of
                           None \<Rightarrow> default_profile (pd_user_id d) now | Some p \<Rightarrow> p)"
  have p0: "session_history p0 = [] \<and> cross_session_insights p0 = None"
    using assms
    by (auto simp: p0_def session_history_default_profile insights_default_profile
        split: option.splits)
  have "user_profiles st (pd_user_id d) = Some p0
        \<or> user_profiles st (pd_user_id d) = None \<and> p0 = default_profile (pd_user_id d) now"
    by (auto simp: p0_def split: option.splits)
  with p0 have "user_profiles (update_profile_from_prompt an st d now)
           = (user_profiles st)(pd_user_id d \<mapsto> apply_prompt an p0 d now)"
    by (intro prompt_without_sessions) auto
  with assms p0 show ?thesis
    by (auto simp: session_history_apply_prompt insights_apply_prompt)
qed

lemma no_session_invariant_feedback:
  assumes "\<forall>uid p. user_profiles st uid = Some p \<longrightarrow>
             session_history p = [] \<and> cross_session_insights p = None"
  shows "\<forall>uid p. user_profiles (update_profile_from_feedback st d now) uid = Some p \<longrightarrow>
           session_history p = [] \<and> cross_session_insights p = None"
proof -
  define p0 where "p0 = (case user_profiles st (fd_user_id d) of
                           None \<Rightarrow> default_profile (fd_user_id d) now | Some p \<Rightarrow> p)"
  have p0: "session_history p0 = [] \<and> cross_session_insights p0 = None"
    using assms
    by (auto simp: p0_def session_history_default_profile insights_default_profile
        split: option.splits)
  have "user_profiles st (fd_user_id d) = Some p0
        \<or> user_profiles st (fd_user_id d) = None \<and> p0 = default_profile (fd_user_id d) now"
    by (auto simp: p0_def split: option.splits)
  with p0 have "user_profiles (update_profile_from_feedback st d now)
           = (user_profiles st)(fd_user_id d \<mapsto> apply_feedback p0 d now)"
    by (intro feedback_without_sessions) auto
  with assms p0 show ?thesis
    by (auto simp: session_history_apply_feedback insights_apply_feedback)
qed

lemma no_session_invariant_events:
  "(\<forall>uid p. user_profiles st uid = Some p \<longrightarrow>
       session_history p = [] \<and> cross_session_insights p = None) \<Longrightarrow>
   (\<forall>uid p. user_profiles (process_events an st es) uid = Some p \<longrightarrow>
       session_history p = [] \<and> cross_session_insights p = None)"
proof (induction an st es rule: process_events.induct)
  case (1 an st)
  then show ?case unfolding process_events.simps .
next
  case (2 an st d now es)
  have "\<forall>uid p. user_profiles (update_profile_from_prompt an st d now) uid = Some p \<longrightarrow>
          session_history p = [] \<and> cross_session_insights p = None"
    using "2.prems" by (rule no_session_invariant_prompt)
  then have "\<forall>uid p. user_profiles
                 (process_events an (update_profile_from_prompt an st d now) es) uid = Some p \<longrightarrow>
          session_history p = [] \<and> cross_session_insights p = None"
    by (rule "2.IH")
  then show ?case unfolding process_events.simps .
next
  case (3 an st d now es)
  have "\<forall>uid p. user_profiles (update_profile_from_feedback st d now) uid = Some p \<longrightarrow>
          session_history p = [] \<and> cross_session_insights p = None"
    using "3.prems" by (rule no_session_invariant_feedback)
  then have "\<forall>uid p. user_profiles
                 (process_events an (update_profile_from_feedback st d now) es) uid = Some p \<longrightarrow>
          session_history p = [] \<and> cross_session_insights p = None"
    by (rule "3.IH")
  then show ?case unfolding process_events.simps .
qed

theorem messages_and_feedback_give_no_insights:
  "fst (analyze_user_patterns cache uid
          (user_profiles (process_events an new_profiler es)) now) = None
   \<and> (\<forall>p. user_profiles (process_events an new_profiler es) uid = Some p \<longrightarrow>
          cross_session_insights p = None)"
proof -
  have "\<forall>uid p. user_profiles new_profiler uid = Some p \<longrightarrow>
          session_history p = [] \<and> cross_session_insights p = None"
    by (simp add: new_profiler_def)
  then have inv: "\<forall>uid p. user_profiles (process_events an new_profiler es) uid = Some p \<longrightarrow>
          session_history p = [] \<and> cross_session_insights p = None"
    by (rule no_session_invariant_events)
  show ?thesis
  proof (cases "user_profiles (process_events an new_profiler es) uid")
    case None
    then show ?thesis by (simp add: analyze_user_patterns_def)
  next
    case (Some q)
    with inv have "session_history q = []" and "cross_session_insights q = None" by auto
    with Some show ?thesis by (simp add: analyze_user_patterns_def)
  qed
qed


section \<open>Properties of the sentiment scorer\<close>

subsection \<open>The two loops in closed form\<close>

lemma score_words_closed:
  "score_words (t, n) ws =
     (t + sum_list (map lexicon_score (filter (\<lambda>w. w \<noteq> []) (map clean_word ws))),
      n + int (length (filter (\<lambda>w. w \<noteq> []) (map clean_word ws))))"
proof (induction ws arbitrary: t n)
  case Nil
  then show ?case by simp
next
  case (Cons w ws)
  show ?case
  proof (cases "clean_word w = []")
    case True
    then show ?thesis by (simp add: Cons.IH)
  next
    case False
    then show ?thesis
      by (cases "map_of sentiment_tokens (clean_word w)")
         (simp_all add: Cons.IH lexicon_score_def get_default_def)
  qed
qed

lemma score_emojis_closed:
  "score_emojis cps (t, n) es =
     (t + sum_list (map snd (filter (\<lambda>(e, s). py_in e cps) es)),
      n + int (length (filter (\<lambda>(e, s). py_in e cps) es)))"
  by (induction es arbitrary: t n) (auto split: prod.splits)

text \<open>
  C4, as the code has it. The sum is the sum of the lexicon scores of the tokens plus the
  scores of the emoji entries that occur in the text. The count, which divides it, is the
  number of all tokens that are non-empty after punctuation stripping, in the lexicon or
  not, plus the number of those emoji entries: a token absent from the lexicon adds 0 to
  the sum and 1 to the count.
\<close>

theorem sentiment_totals_closed_form:
  "sentiment_totals text =
     (sum_list (map lexicon_score (informative_tokens text))
        + sum_list (map snd (emojis_present text)),
      int (length (informative_tokens text)) + int (length (emojis_present text)))"
  by (simp add: sentiment_totals_def score_words_closed score_emojis_closed
      informative_tokens_def emojis_present_def)

subsection \<open>Texts without emoji\<close>

lemma startswith_set: "startswith xs ps \<Longrightarrow> set ps \<subseteq> set xs"
  by (induction xs ps rule: startswith.induct) auto

lemma py_in_set: "py_in needle hay \<Longrightarrow> set needle \<subseteq> set hay"
proof (induction hay)
  case Nil
  then show ?case by simp
next
  case (Cons x xs)
  from Cons.prems have "startswith (x # xs) needle \<or> py_in needle xs" by simp
  then show ?case
  proof
    assume "startswith (x # xs) needle"
    then show ?thesis by (rule startswith_set)
  next
    assume "py_in needle xs"
    then have "set needle \<subseteq> set xs" by (rule Cons.IH)
    then show ?thesis by auto
  qed
qed

text \<open>Every key of the emoji table holds a code point of 160 or more.\<close>

lemma emoji_keys_high: "list_all (\<lambda>(k, v). list_ex (\<lambda>c. 160 \<le> c) k) emoji_sentiment"
  by (simp add: emoji_sentiment_def)

lemma score_emojis_none:
  "\<forall>(k, v) \<in> set es. \<not> py_in k cps \<Longrightarrow> score_emojis cps acc es = acc"
  by (induction es arbitrary: acc) (auto split: prod.splits)

lemma no_emoji_below_160:
  assumes "\<forall>c \<in> set cps. c < 160"
  shows "score_emojis cps acc emoji_sentiment = acc"
proof (rule score_emojis_none, clarify)
  fix k v assume kv: "(k, v) \<in> set emoji_sentiment" and "py_in k cps"
  then have "set k \<subseteq> set cps" using py_in_set by blast
  moreover from kv emoji_keys_high obtain c where "c \<in> set k" "160 \<le> c"
    by (auto simp: list_all_iff list_ex_iff)
  ultimately show False using assms by force
qed

subsection \<open>One matched word among five\<close>

lemma five_words_scored:
  "score_words (0, 0) (py_split (py_lower ''nice apple banana cherry dog'')) = (3, 5)"
  by code_simp

lemma five_words_ascii:
  "\<forall>c \<in> set (map code_point ''nice apple banana cherry dog''). c < 160"
  by (simp add: code_point_def)

text \<open>
  The claim as stated fails: the text holds one lexicon word of score 3 (``nice'') and
  four words that the lexicon does not hold; the sum is 3, the count is 5, the average is
  3/5 and not 3, and both returned scores truncate to 0.
\<close>

theorem one_matched_word_of_five_counterexample:
  "map lexicon_score (informative_tokens ''nice apple banana cherry dog'') = [3, 0, 0, 0, 0]
   \<and> sentiment_totals ''nice apple banana cherry dog'' = (3, 5)
   \<and> sentiment_average ''nice apple banana cherry dog'' = 3 / 5
   \<and> sentiment_average ''nice apple banana cherry dog'' \<noteq> 3
   \<and> analyze_sentiment ''nice apple banana cherry dog'' = (0, 0)"
proof -
  have l: "map lexicon_score (informative_tokens ''nice apple banana cherry dog'')
             = [3, 0, 0, 0, 0]"
    by code_simp
  have t: "sentiment_totals ''nice apple banana cherry dog'' = (3, 5)"
    unfolding sentiment_totals_def five_words_scored
    by (rule no_emoji_below_160 [OF five_words_ascii])
  then have a: "sentiment_average ''nice apple banana cherry dog'' = 3 / 5"
    by (simp add: sentiment_average_def)
  have "\<lfloor>3 / 5 :: rat\<rfloor> = 0" by (simp add: floor_eq_iff)
  then have "analyze_sentiment ''nice apple banana cherry dog'' = (0, 0)"
    unfolding analyze_sentiment_def a by (simp add: py_int_def Let_def)
  with l t a show ?thesis by simp
qed


section \<open>Properties of the language complexity scorer\<close>







section \<open>Properties of the prompt enricher\<close>

lemma format_placeholder: "format_template placeholder ctx = ctx"
  by (simp add: placeholder_def)

text \<open>A template that ends in the field, with no brace before it, keeps its prefix.\<close>

lemma format_prefix:
  "CHR ''{'' \<notin> set pre \<Longrightarrow> format_template (pre @ placeholder) ctx = pre @ ctx"
proof (induction pre)
  case Nil
  then show ?case by (simp add: format_placeholder)
next
  case (Cons c pre)
  then have "\<not> startswith (c # pre @ placeholder) placeholder"
    by (auto simp: placeholder_def)
  with Cons show ?case by simp
qed

lemma select_template_shape:
  "\<exists>pre. select_template params = pre @ placeholder \<and> CHR ''{'' \<notin> set pre \<and> pre \<noteq> []"
  by (simp add: select_template_def template_named_def prompt_templates_def get_default_def
      placeholder_def Let_def)

text \<open>
  C9. For every base prompt p and every parameter dictionary, the enriched prompt is the
  selected template, its field replaced by the personalization clause, followed by the
  exact suffix "\n\nUser: " + p + "\n\nAssistant:"; it is strictly longer than p.
\<close>

theorem enrich_prompt_shape:
  "(\<exists>pre. select_template params = pre @ ''{personalization_context}''
      \<and> enrich_prompt p uid params =
          pre @ create_personalization_context params
            @ [CHR 0x0A, CHR 0x0A] @ ''User: '' @ p @ [CHR 0x0A, CHR 0x0A] @ ''Assistant:'')
   \<and> length p < length (enrich_prompt p uid params)"
proof -
  obtain pre where pre: "select_template params = pre @ placeholder" "CHR ''{'' \<notin> set pre"
    using select_template_shape by blast
  then have e: "enrich_prompt p uid params =
          pre @ create_personalization_context params
            @ [CHR 0x0A, CHR 0x0A] @ ''User: '' @ p @ [CHR 0x0A, CHR 0x0A] @ ''Assistant:''"
    by (simp add: enrich_prompt_def Let_def format_prefix newline_def)
  then have "length p < length (enrich_prompt p uid params)" by simp
  with pre e show ?thesis unfolding placeholder_def by blast
qed


end
